theory Spec2Isabelle
  imports Complex_Main "HOL-Library.Log_Nat"
begin

section \<open>Values of the Python program\<close>

text \<open>
  The file structure that \<open>build_file_structure\<close> returns is a Python dict from entry
  names to one of three kinds of value: the string \<open>"<size> bytes"\<close> for a file, a nested
  dict for a directory whose listing was fetched, and the empty list \<open>[]\<close> for a
  directory whose listing was not obtained. The fallback and minimal analyses use dicts
  with one string value. A dict keeps its keys in insertion order and holds each key
  once, so it is an association list updated by \<open>dict_set\<close>.
\<close>

datatype content = Text string | Empty_list | Dict "(string \<times> content) list"

type_synonym file_structure = "(string \<times> content) list"

fun dict_set :: "('k \<times> 'v) list \<Rightarrow> 'k \<Rightarrow> 'v \<Rightarrow> ('k \<times> 'v) list" where
  "dict_set [] k v = [(k, v)]"
| "dict_set ((k', v') # rest) k v =
     (if k' = k then (k, v) # rest else (k', v') # dict_set rest k v)"

definition keys :: "('k \<times> 'v) list \<Rightarrow> 'k list" where
  "keys d = map fst d"

subsection \<open>Strings\<close>

text \<open>\<open>s.endswith(suffix)\<close>, \<open>sub in s\<close>, \<open>s.strip('/')\<close> and \<open>s.split('/')\<close>.\<close>

definition endswith :: "string \<Rightarrow> string \<Rightarrow> bool" where
  "endswith s suffix = (length suffix \<le> length s \<and> drop (length s - length suffix) s = suffix)"

fun startswith :: "string \<Rightarrow> string \<Rightarrow> bool" where
  "startswith s [] = True"
| "startswith [] (c # cs) = False"
| "startswith (x # xs) (c # cs) = (x = c \<and> startswith xs cs)"

fun str_in :: "string \<Rightarrow> string \<Rightarrow> bool" where
  "str_in sub [] = (sub = [])"
| "str_in sub (x # xs) = (startswith (x # xs) sub \<or> str_in sub xs)"

definition strip :: "char \<Rightarrow> string \<Rightarrow> string" where
  "strip c s = rev (dropWhile (\<lambda>x. x = c) (rev (dropWhile (\<lambda>x. x = c) s)))"

fun split :: "char \<Rightarrow> string \<Rightarrow> string list" where
  "split c [] = [[]]"
| "split c (x # xs) =
     (if x = c then [] # split c xs
      else (case split c xs of w # ws \<Rightarrow> (x # w) # ws | [] \<Rightarrow> [[x]]))"

text \<open>The segments of a path that are not empty.\<close>

definition segments :: "string \<Rightarrow> string list" where
  "segments p = filter (\<lambda>w. w \<noteq> []) (split CHR ''/'' p)"

text \<open>The decimal form of an integer, as an f-string prints it.\<close>

definition digit :: "nat \<Rightarrow> char" where
  "digit n = ''0123456789'' ! (n mod 10)"

function str_nat :: "nat \<Rightarrow> string" where
  "str_nat n = (if n < 10 then [digit n] else str_nat (n div 10) @ [digit n])"
  by pat_completeness auto
termination
  by (relation "measure (\<lambda>n. n)") auto

declare str_nat.simps [simp del]

definition str_int :: "int \<Rightarrow> string" where
  "str_int i = (if i < 0 then CHR ''-'' # str_nat (nat (- i)) else str_nat (nat i))"

section \<open>Counting files\<close>

text \<open>
  \<open>count_files\<close> loops over the items of a dict, adds the count of every value that is
  a dict and one for every other value.
\<close>

function count_files :: "file_structure \<Rightarrow> nat" where
  "count_files [] = 0"
| "count_files ((key, v) # rest) =
     (case v of Dict d \<Rightarrow> count_files d | _ \<Rightarrow> 1) + count_files rest"
  by pat_completeness auto
termination
  by (relation "measure (\<lambda>d. size (Dict d))") auto

section \<open>The remote API and the fetcher\<close>

text \<open>
  The exceptions that the program raises or receives. \<open>RequestError\<close> stands for any
  failure of \<open>client.get\<close>, \<open>JSONDecodeError\<close> for a body that \<open>.json()\<close> rejects.
\<close>

datatype exn = RequestError | JSONDecodeError | KeyError | TypeError | ValueError string
  | HTTPException nat string

text \<open>
  What one \<open>client.get\<close> answers: it raises, or it returns a response with a status code
  and a body; the body is \<open>None\<close> when \<open>.json()\<close> would raise on it.
\<close>

datatype 'a response = Raises | Response nat "'a option"

text \<open>
  An entry of a directory listing has the fields \<open>type\<close>, \<open>name\<close>, \<open>path\<close> and
  optionally \<open>size\<close>. The remote is an input of the program: the last field of an entry
  is what the GET of \<open>contents/<path>\<close> answers when the traversal asks for it, so a
  value of this type is the remote repository unfolded along the traversal. \<open>Malformed\<close>
  is an entry without the key \<open>type\<close>, on which \<open>item['type']\<close> raises. A decoded body
  is a list of entries, a JSON string, or another JSON value that is not a list (an
  object, a number, a boolean or null).
\<close>

datatype item = Item string string string "int option" "listing response" | Malformed
  and listing = Listing "item list" | Json_string string | Not_a_list

definition api :: string where
  "api = ''https://api.github.com/repos/''"

lemma size_list_take: "size_list f (take n xs) \<le> size_list f xs"
proof (induction xs arbitrary: n)
  case Nil
  show ?case by simp
next
  case (Cons x xs)
  show ?case using Cons.IH by (cases n) (simp_all add: le_SucI)
qed

text \<open>
  \<open>build_file_structure\<close> returns the URLs it requested, in order, and either the
  exception that left it or the dict it built. \<open>build_items\<close> is its \<open>for\<close> loop over
  \<open>contents[:20]\<close> with the dict built so far. The \<open>try\<close> around the fetch of a directory
  has a bare \<open>except\<close>: whatever is raised there, also inside the recursive call, stores
  \<open>[]\<close> for the directory.
\<close>

function build_file_structure ::
    "string \<Rightarrow> string \<Rightarrow> item list \<Rightarrow> string list \<times> (exn + file_structure)"
  and build_items ::
    "string \<Rightarrow> string \<Rightarrow> item list \<Rightarrow> file_structure \<Rightarrow> string list \<times> (exn + file_structure)"
where
  "build_file_structure owner repo_name contents =
     build_items owner repo_name (take 20 contents) []"
| "build_items owner repo_name [] structure = ([], Inr structure)"
| "build_items owner repo_name (Malformed # rest) structure = ([], Inl KeyError)"
| "build_items owner repo_name (Item ty name path sz dir_response # rest) structure =
     (if ty = ''dir'' then
        (let url = api @ owner @ ''/'' @ repo_name @ ''/contents/'' @ path;
             (nested, v) =
               (case dir_response of
                  Raises \<Rightarrow> ([], Empty_list)
                | Response status_code body \<Rightarrow>
                    if status_code = 200 then
                      (case body of
                         None \<Rightarrow> ([], Empty_list)
                       | Some Not_a_list \<Rightarrow> ([], Empty_list)
                       | Some (Json_string str) \<Rightarrow> ([], Empty_list)
                       | Some (Listing dir_contents) \<Rightarrow>
                           (case build_file_structure owner repo_name (take 10 dir_contents) of
                              (reqs, Inl e) \<Rightarrow> (reqs, Empty_list)
                            | (reqs, Inr sub) \<Rightarrow> (reqs, Dict sub)))
                    else ([], Empty_list));
             (later, result) = build_items owner repo_name rest (dict_set structure (name @ ''/'') v)
         in (url # nested @ later, result))
      else
        build_items owner repo_name rest
          (dict_set structure name
             (Text (str_int (case sz of None \<Rightarrow> 0 | Some n \<Rightarrow> n) @ '' bytes''))))"
  by pat_completeness auto
termination
proof (relation "measure (\<lambda>x. case x of
          Inl (owner, repo_name, contents) \<Rightarrow> 2 * size_list size contents + 1
        | Inr (owner, repo_name, items, structure) \<Rightarrow> 2 * size_list size items)",
       goal_cases)
  case 1
  show ?case by simp
next
  case (2 owner repo_name contents)
  show ?case using size_list_take [of size 20 contents] by simp
next
  case 3
  then show ?case
    apply simp
    apply (rule le_less_trans [OF mult_le_mono2 [OF size_list_take]])
    apply simp
    done
next
  case 4
  show ?case by simp
next
  case 5
  show ?case by simp
qed

section \<open>The heuristics\<close>

text \<open>
  The metadata of a repository as the remote reports it. The program reads it with
  \<open>repo_data.get(key)\<close> and \<open>repo_data.get(key, 0)\<close>, so every field may be absent.
\<close>

record repo_data =
  language :: "string option"
  repo_size :: "int option"
  stargazers_count :: "int option"
  forks_count :: "int option"

definition get_or :: "'a option \<Rightarrow> 'a \<Rightarrow> 'a" where
  "get_or field dflt = (case field of None \<Rightarrow> dflt | Some v \<Rightarrow> v)"

text \<open>\<open>repo_data.get('language')\<close> as a condition: present and not the empty string.\<close>

definition truthy :: "string option \<Rightarrow> bool" where
  "truthy field = (case field of None \<Rightarrow> False | Some v \<Rightarrow> v \<noteq> [])"

subsection \<open>Technology detector\<close>

text \<open>
  \<open>technologies\<close> is a Python set of labels. It is modelled by a list without
  repetition: \<open>set_add\<close> is \<open>technologies.add\<close>, \<open>set_update\<close> is
  \<open>technologies.update\<close>. The order in which \<open>list(technologies)\<close> lists the labels
  is not fixed by Python; here it is the order of first insertion.
\<close>

definition set_add :: "string \<Rightarrow> string list \<Rightarrow> string list" where
  "set_add x technologies = (if x \<in> set technologies then technologies else technologies @ [x])"

definition set_update :: "string list \<Rightarrow> string list \<Rightarrow> string list" where
  "set_update xs technologies = foldl (\<lambda>acc x. set_add x acc) technologies xs"

text \<open>The two \<open>if\<close>/\<open>elif\<close> chains of \<open>scan_files\<close>: the labels each adds for a name.\<close>

definition file_extensions :: "string \<Rightarrow> string list" where
  "file_extensions name =
     (if endswith name ''.tsx'' \<or> endswith name ''.jsx'' then [''React'', ''JavaScript'']
      else if endswith name ''.ts'' then [''TypeScript'']
      else if endswith name ''.vue'' then [''Vue.js'']
      else if endswith name ''.py'' then [''Python'']
      else if endswith name ''.java'' then [''Java'']
      else if endswith name ''.go'' then [''Go'']
      else if endswith name ''.rs'' then [''Rust'']
      else if endswith name ''.php'' then [''PHP'']
      else if endswith name ''.rb'' then [''Ruby'']
      else if endswith name ''.swift'' then [''Swift'']
      else if endswith name ''.kt'' then [''Kotlin'']
      else if endswith name ''.dart'' then [''Dart'']
      else [])"

definition framework_detection :: "string \<Rightarrow> string list" where
  "framework_detection name =
     (if name = ''package.json'' then [''Node.js'', ''npm'']
      else if name = ''Cargo.toml'' then [''Rust'']
      else if name = ''requirements.txt'' \<or> name = ''pyproject.toml'' then [''Python'']
      else if name = ''pom.xml'' \<or> name = ''build.gradle'' then [''Java'']
      else if name = ''Gemfile'' then [''Ruby'']
      else if name = ''composer.json'' then [''PHP'']
      else if name = ''pubspec.yaml'' then [''Dart'', ''Flutter'']
      else if name = ''vite.config.ts'' \<or> name = ''vite.config.js'' then [''Vite'']
      else if name = ''webpack.config.js'' then [''Webpack'']
      else if name = ''tailwind.config.js'' then [''Tailwind CSS'']
      else if name = ''next.config.js'' then [''Next.js'']
      else if name = ''nuxt.config.js'' then [''Nuxt.js'']
      else if name = ''angular.json'' then [''Angular'']
      else if name = ''vue.config.js'' then [''Vue.js'']
      else if name = ''svelte.config.js'' then [''Svelte'']
      else if name = ''Dockerfile'' then [''Docker'']
      else if name = ''docker-compose.yml'' then [''Docker Compose'']
      else if name = ''.github'' then [''GitHub Actions'']
      else [])"

text \<open>
  \<open>scan_files\<close> walks the items of a dict; a value that is a dict is scanned in turn and
  its own name is not looked at, any other value has its name matched.
\<close>

function scan_files :: "file_structure \<Rightarrow> string list \<Rightarrow> string list" where
  "scan_files [] technologies = technologies"
| "scan_files ((name, content) # rest) technologies =
     scan_files rest
       (case content of
          Dict d \<Rightarrow> scan_files d technologies
        | _ \<Rightarrow> set_update (framework_detection name)
                (set_update (file_extensions name) technologies))"
  by pat_completeness auto
termination
  by (relation "measure (\<lambda>(d, t). size (Dict d))") auto

definition detect_technologies :: "file_structure \<Rightarrow> repo_data \<Rightarrow> string list" where
  "detect_technologies file_structure repo_data =
     scan_files file_structure
       (if truthy (language repo_data) then set_add (the (language repo_data)) [] else [])"

subsection \<open>Pattern analyzer and recommendation generator\<close>

text \<open>
  Both functions define the same two local helpers. \<open>has_directory\<close> is
  \<open>any(name in str(key) for key in file_structure.keys())\<close>; \<open>has_file\<close> is the recursive
  \<open>search_structure\<close> applied to the whole structure.
\<close>

definition has_directory :: "file_structure \<Rightarrow> string \<Rightarrow> bool" where
  "has_directory file_structure name = list_ex (\<lambda>key. str_in name key) (keys file_structure)"

function search_structure :: "string \<Rightarrow> file_structure \<Rightarrow> bool" where
  "search_structure name [] = False"
| "search_structure name ((key, v) # rest) =
     (if str_in name key then True
      else if (case v of Dict d \<Rightarrow> search_structure name d | _ \<Rightarrow> False) then True
      else search_structure name rest)"
  by pat_completeness auto
termination
  by (relation "measure (\<lambda>(name, d). size (Dict d))") auto

definition has_file :: "file_structure \<Rightarrow> string \<Rightarrow> bool" where
  "has_file file_structure name = search_structure name file_structure"

text \<open>\<open>if c: patterns.append(x)\<close> contributes \<open>when c x\<close> to the list.\<close>

definition "when" :: "bool \<Rightarrow> 'a \<Rightarrow> 'a list" where
  "when c x = (if c then [x] else [])"

definition analyze_code_patterns :: "file_structure \<Rightarrow> string list \<Rightarrow> string list" where
  "analyze_code_patterns file_structure technologies =
     (let has_directory = has_directory file_structure; has_file = has_file file_structure in
      concat
       [when (has_directory ''components'') ''Component-based architecture'',
        when (has_directory ''pages'' \<or> has_directory ''views'') ''Page-based routing'',
        when (has_directory ''hooks'') ''Custom hooks pattern'',
        when (has_directory ''services'' \<or> has_directory ''api'') ''Service layer architecture'',
        when (has_directory ''utils'' \<or> has_directory ''helpers'') ''Utility functions organization'',
        when (has_directory ''models'' \<or> has_directory ''entities'') ''Data modeling patterns'',
        when (has_directory ''controllers'') ''MVC architecture'',
        when (has_directory ''middleware'') ''Middleware pattern'',
        when (has_directory ''store'' \<or> has_directory ''redux'') ''State management patterns'',
        when (has_directory ''tests'' \<or> has_directory ''__tests__'') ''Test-driven development'',
        when (has_file ''docker'') ''Containerization patterns'',
        when (has_file ''.env'') ''Environment configuration'',
        when (has_file ''README'') ''Documentation practices'',
        when (''TypeScript'' \<in> set technologies) ''Type-safe development'',
        when (''React'' \<in> set technologies) ''React functional components'',
        when (''Vue.js'' \<in> set technologies) ''Vue composition patterns'',
        when (''Next.js'' \<in> set technologies) ''Full-stack React framework'',
        when (''Tailwind CSS'' \<in> set technologies) ''Utility-first CSS''])"

definition generate_recommendations ::
    "file_structure \<Rightarrow> string list \<Rightarrow> repo_data \<Rightarrow> string list" where
  "generate_recommendations file_structure technologies repo_data =
     (let has_directory = has_directory file_structure; has_file = has_file file_structure in
      concat
       [when (\<not> has_directory ''test'' \<and> \<not> has_directory ''__tests__'')
          ''Add unit tests to improve code reliability'',
        when (\<not> has_file ''README'') ''Add a comprehensive README.md file'',
        when (\<not> has_directory ''.github'') ''Set up GitHub Actions for CI/CD'',
        when (\<not> has_file ''.env'' \<and>
              (''Node.js'' \<in> set technologies \<or> ''Python'' \<in> set technologies))
          ''Add environment configuration files'',
        when (\<not> has_file ''Dockerfile'' \<and> length technologies > 2)
          ''Consider containerizing the application with Docker'',
        when (''JavaScript'' \<in> set technologies \<and> ''TypeScript'' \<notin> set technologies)
          ''Consider migrating to TypeScript for better type safety'',
        if ''JavaScript'' \<in> set technologies \<or> ''TypeScript'' \<in> set technologies then
          when (\<not> has_file ''eslint'') ''Add ESLint for code quality enforcement'' @
          when (\<not> has_file ''prettier'') ''Add Prettier for consistent code formatting''
        else [],
        when (has_file ''package.json'') ''Regular dependency updates and security audits'',
        when (''React'' \<in> set technologies) ''Implement code splitting and lazy loading'',
        when (get_or (stargazers_count repo_data) 0 > 100)
          ''Consider adding contributor guidelines''])"

section \<open>Floating point\<close>

text \<open>
  A Python float is an IEEE 754 double. It is modelled by the rational number it
  denotes; \<open>fl\<close> rounds a rational to the nearest double, ties to the even significand
  of 53 bits. The exponent is not bounded: overflow and subnormal numbers are out of
  reach of the values the scorer computes. \<open>rhe\<close> rounds to the nearest integer, ties
  to even; \<open>expo x\<close> is the integer \<open>e\<close> with \<open>2\<^sup>e \<le> x < 2\<^sup>e\<^sup>+\<^sup>1\<close> for positive \<open>x\<close>.
\<close>

definition rhe :: "rat \<Rightarrow> int" where
  "rhe r = (let f = \<lfloor>r\<rfloor>; d = r - of_int f in
            if d < 1 / 2 then f else if 1 / 2 < d then f + 1
            else if even f then f else f + 1)"

definition expo :: "rat \<Rightarrow> int" where
  "expo x = (let (p, q) = quotient_of x; e = bitlen p - bitlen q
             in if 2 powi e \<le> x then e else e - 1)"

definition ulp :: "rat \<Rightarrow> rat" where
  "ulp x = 2 powi (expo x - 52)"

definition fl :: "rat \<Rightarrow> rat" where
  "fl x = (if x = 0 then 0
           else if x < 0 then - (of_int (rhe (- x / ulp (- x))) * ulp (- x))
           else of_int (rhe (x / ulp x)) * ulp x)"

text \<open>
  Float addition, the true division of two integers, and \<open>round(x, 1)\<close>, which rounds
  the exact value of \<open>x\<close> to one decimal (ties to even) and returns the nearest double.
  \<open>py_sum\<close> is \<open>sum\<close> over floats, adding from the left with one rounding for each
  addition (CPython from 3.12 on also carries a compensation term, which can change the
  last bit of the sum; the sum is not negative in either case).
\<close>

definition fadd :: "rat \<Rightarrow> rat \<Rightarrow> rat" where
  "fadd a b = fl (a + b)"

definition truediv :: "int \<Rightarrow> int \<Rightarrow> rat" where
  "truediv a b = fl (of_int a / of_int b)"

definition round1 :: "rat \<Rightarrow> rat" where
  "round1 x = fl (of_int (rhe (x * 10)) / 10)"

definition py_sum :: "rat list \<Rightarrow> rat" where
  "py_sum xs = foldl fadd 0 xs"

subsection \<open>Complexity scorer\<close>

definition advanced_tech :: "string list" where
  "advanced_tech = [''TypeScript'', ''Rust'', ''Go'', ''Docker'', ''Kubernetes'']"

definition calculate_complexity_score ::
    "file_structure \<Rightarrow> string list \<Rightarrow> repo_data \<Rightarrow> rat" where
  "calculate_complexity_score file_structure technologies repo_data =
     (let score = 1;
          file_count = count_files file_structure;
          score = fadd score (min 3 (truediv (int file_count) 20));
          score = fadd score (min 2 (truediv (int (length technologies)) 5));
          score = (if get_or (repo_size repo_data) 0 > 1000 then fadd score 1 else score);
          score = (if get_or (repo_size repo_data) 0 > 10000 then fadd score 1 else score);
          score = (if get_or (stargazers_count repo_data) 0 > 10 then fadd score (1 / 2) else score);
          score = (if get_or (forks_count repo_data) 0 > 5 then fadd score (1 / 2) else score);
          score = fadd score
                    (py_sum (map (\<lambda>tech. fl (3 / 10))
                               (filter (\<lambda>tech. tech \<in> set advanced_tech) technologies)))
      in round1 (min 10 score))"

section \<open>The fetch of one repository\<close>

text \<open>
  The five components that \<open>analyze_github_repository\<close> returns: file structure,
  technologies, patterns, recommendations and complexity score.
\<close>

type_synonym analysis = "file_structure \<times> string list \<times> string list \<times> string list \<times> rat"

text \<open>
  The metadata as the remote sends it. A numeric field is absent, a number, or another
  JSON value (null, a string), on which a comparison such as \<open>x > 1000\<close> raises
  \<open>TypeError\<close>; the primary language is a string or absent.
\<close>

datatype number = Number int | Not_a_number

record repo_json =
  json_language :: "string option"
  json_size :: "number option"
  json_stargazers_count :: "number option"
  json_forks_count :: "number option"

definition read_number :: "number option \<Rightarrow> exn + int option" where
  "read_number field =
     (case field of
        None \<Rightarrow> Inr None
      | Some (Number n) \<Rightarrow> Inr (Some n)
      | Some Not_a_number \<Rightarrow> Inl TypeError)"

definition create_minimal_analysis :: "repo_json \<Rightarrow> analysis" where
  "create_minimal_analysis repo_data =
     ([(''README.md'', Text ''Repository content not accessible'')],
      (if truthy (json_language repo_data) then [get_or (json_language repo_data) ''Unknown'']
       else [''Unknown'']),
      [''Repository structure not analyzable''],
      [''Repository appears to be empty or private'', ''Add public content for analysis''],
      1)"

definition create_fallback_analysis :: "string \<Rightarrow> analysis" where
  "create_fallback_analysis repo_name =
     ([(''error'', Text ''Unable to analyze repository structure'')],
      [''Unknown''],
      [''Analysis failed due to API limitations''],
      [''Repository could not be analyzed'', ''Check repository accessibility''],
      1)"

text \<open>
  The four heuristics on the metadata as sent. \<open>generate_recommendations\<close> compares the
  star count with a constant and \<open>calculate_complexity_score\<close> compares the size, the
  star count and the fork count, each without a condition before it: when one of these
  fields is present and not a number the comparison raises, and when all are numbers or
  absent the heuristics compute on them.
\<close>

definition run_heuristics :: "file_structure \<Rightarrow> repo_json \<Rightarrow> exn + analysis" where
  "run_heuristics file_structure repo_data =
     (case read_number (json_stargazers_count repo_data) of
        Inl e \<Rightarrow> Inl e
      | Inr stars \<Rightarrow>
          (case read_number (json_size repo_data) of
             Inl e \<Rightarrow> Inl e
           | Inr sz \<Rightarrow>
               (case read_number (json_forks_count repo_data) of
                  Inl e \<Rightarrow> Inl e
                | Inr forks \<Rightarrow>
                    (let meta = \<lparr>language = json_language repo_data, repo_size = sz,
                                 stargazers_count = stars, forks_count = forks\<rparr>;
                         technologies_detected = detect_technologies file_structure meta;
                         vibe_patterns = analyze_code_patterns file_structure technologies_detected;
                         recommendations =
                           generate_recommendations file_structure technologies_detected meta;
                         complexity_score =
                           calculate_complexity_score file_structure technologies_detected meta
                     in Inr (file_structure, technologies_detected, vibe_patterns,
                             recommendations, complexity_score)))))"

text \<open>
  The part of the \<open>try\<close> from the call of \<open>build_file_structure\<close> on: the requests of
  the traversal and the exception raised or the tuple returned.
\<close>

definition analyze_contents ::
    "string \<Rightarrow> string \<Rightarrow> repo_json \<Rightarrow> item list \<Rightarrow> string list \<times> (exn + analysis)" where
  "analyze_contents owner repo_name repo_data contents =
     (case build_file_structure owner repo_name contents of
        (reqs, Inl e) \<Rightarrow> (reqs, Inl e)
      | (reqs, Inr file_structure) \<Rightarrow> (reqs, run_heuristics file_structure repo_data))"

text \<open>
  The body of the \<open>try\<close> in \<open>analyze_github_repository\<close>, with the two top-level
  responses of the remote as inputs: the requests made and the exception raised or the
  tuple returned. The body of the listing is sliced and iterated without a test of its
  type: the empty string yields no entry, as the empty list does; a string that is not
  empty raises at the first \<open>item['type']\<close>, and any other value that is not a list
  raises at \<open>contents[:20]\<close>.
\<close>

definition analyze_try ::
    "repo_json response \<Rightarrow> listing response \<Rightarrow> string \<Rightarrow> string
      \<Rightarrow> string list \<times> (exn + analysis)" where
  "analyze_try repo_response contents_response owner repo_name =
     (let repo_url = api @ owner @ ''/'' @ repo_name in
      case repo_response of
        Raises \<Rightarrow> ([repo_url], Inl RequestError)
      | Response status_code body \<Rightarrow>
          if status_code \<noteq> 200 then
            ([repo_url],
             Inl (ValueError (''Repository not found or not accessible: '' @ str_nat status_code)))
          else
            (case body of
               None \<Rightarrow> ([repo_url], Inl JSONDecodeError)
             | Some repo_data \<Rightarrow>
                 (let contents_url = repo_url @ ''/contents'' in
                  case contents_response of
                    Raises \<Rightarrow> ([repo_url, contents_url], Inl RequestError)
                  | Response status_code' body' \<Rightarrow>
                      if status_code' \<noteq> 200 then
                        ([repo_url, contents_url], Inr (create_minimal_analysis repo_data))
                      else
                        (case body' of
                           None \<Rightarrow> ([repo_url, contents_url], Inl JSONDecodeError)
                         | Some Not_a_list \<Rightarrow> ([repo_url, contents_url], Inl TypeError)
                         | Some (Json_string str) \<Rightarrow>
                             if str = [] then
                               (case analyze_contents owner repo_name repo_data [] of
                                  (reqs, result) \<Rightarrow> (repo_url # contents_url # reqs, result))
                             else ([repo_url, contents_url], Inl TypeError)
                         | Some (Listing contents) \<Rightarrow>
                             (case analyze_contents owner repo_name repo_data contents of
                                (reqs, result) \<Rightarrow> (repo_url # contents_url # reqs, result))))))"

text \<open>The \<open>except Exception\<close> of \<open>analyze_github_repository\<close> returns the fallback analysis.\<close>

definition analyze_github_repository ::
    "repo_json response \<Rightarrow> listing response \<Rightarrow> string \<Rightarrow> string
      \<Rightarrow> string list \<times> analysis" where
  "analyze_github_repository repo_response contents_response owner repo_name =
     (case analyze_try repo_response contents_response owner repo_name of
        (reqs, Inl e) \<Rightarrow> (reqs, create_fallback_analysis repo_name)
      | (reqs, Inr result) \<Rightarrow> (reqs, result))"

section \<open>Properties of trees, as the specification words them\<close>

text \<open>
  The entries of a tree at any depth, by kind. \<open>file_leaves\<close> counts the entries whose
  value is a file descriptor, \<open>placeholders\<close> those whose value is the empty list that
  stands for a directory without a listing.
\<close>

function file_leaves :: "file_structure \<Rightarrow> nat" where
  "file_leaves [] = 0"
| "file_leaves ((key, v) # rest) =
     (case v of Dict d \<Rightarrow> file_leaves d | Text t \<Rightarrow> 1 | Empty_list \<Rightarrow> 0) + file_leaves rest"
  by pat_completeness auto
termination
  by (relation "measure (\<lambda>d. size (Dict d))") auto

function placeholders :: "file_structure \<Rightarrow> nat" where
  "placeholders [] = 0"
| "placeholders ((key, v) # rest) =
     (case v of Dict d \<Rightarrow> placeholders d | Text t \<Rightarrow> 0 | Empty_list \<Rightarrow> 1) + placeholders rest"
  by pat_completeness auto
termination
  by (relation "measure (\<lambda>d. size (Dict d))") auto

text \<open>
  A key of a directory (a nested dict or a placeholder) that contains \<open>name\<close>, anywhere
  in the tree.
\<close>

function directory_key_anywhere :: "string \<Rightarrow> file_structure \<Rightarrow> bool" where
  "directory_key_anywhere name [] = False"
| "directory_key_anywhere name ((key, v) # rest) =
     ((case v of
         Dict d \<Rightarrow> str_in name key \<or> directory_key_anywhere name d
       | Empty_list \<Rightarrow> str_in name key
       | Text t \<Rightarrow> False)
      \<or> directory_key_anywhere name rest)"
  by pat_completeness auto
termination
  by (relation "measure (\<lambda>(name, d). size (Dict d))") auto

text \<open>
  Every nested dict, at any depth below the top level, has at most \<open>n\<close> entries, under
  keys that differ.
\<close>

function nested_at_most :: "nat \<Rightarrow> file_structure \<Rightarrow> bool" where
  "nested_at_most n [] = True"
| "nested_at_most n ((key, v) # rest) =
     ((case v of
         Dict d \<Rightarrow> length d \<le> n \<and> distinct (keys d) \<and> nested_at_most n d
       | _ \<Rightarrow> True)
      \<and> nested_at_most n rest)"
  by pat_completeness auto
termination
  by (relation "measure (\<lambda>(n, d). size (Dict d))") auto

text \<open>The same bound for one value of a dict.\<close>

definition value_at_most :: "nat \<Rightarrow> content \<Rightarrow> bool" where
  "value_at_most n v =
     (case v of Dict d \<Rightarrow> length d \<le> n \<and> distinct (keys d) \<and> nested_at_most n d | _ \<Rightarrow> True)"

text \<open>The answers to the request for a directory that make the fetcher store \<open>[]\<close>
  without a recursive call.\<close>

fun degraded :: "listing response \<Rightarrow> bool" where
  "degraded Raises = True"
| "degraded (Response status_code body) =
     (status_code \<noteq> 200 \<or> body = None \<or> body = Some Not_a_list
      \<or> (case body of Some (Json_string str) \<Rightarrow> True | _ \<Rightarrow> False))"

section \<open>The stores and the background task\<close>

text \<open>
  The two pydantic models, without the fields that no function of the analysis reads or
  writes (\<open>language\<close>, \<open>framework\<close> and the timestamps). The program keeps the records in
  two module-level dicts, \<open>repositories\<close> and \<open>analyses\<close>; \<open>requests\<close> is the list of URLs
  that the run has asked the remote for, kept to state which calls were made.
\<close>

record GitRepository =
  id :: "string option"
  url :: string
  name :: string
  description :: "string option"
  analysis_status :: "string option"

record RepositoryAnalysis =
  analysis_id :: string
  repository_id :: string
  file_structure :: file_structure
  technologies_detected :: "string list"
  complexity_score :: rat
  vibe_patterns :: "string list"
  recommendations :: "string list"

record world =
  repositories :: "string \<rightharpoonup> GitRepository"
  analyses :: "string \<rightharpoonup> RepositoryAnalysis"
  requests :: "string list"

text \<open>
  \<open>if repository_id in repositories: repositories[repository_id].analysis_status = status\<close>
\<close>

definition set_status :: "string \<Rightarrow> string \<Rightarrow> world \<Rightarrow> world" where
  "set_status rid status s =
     (case repositories s rid of
        None \<Rightarrow> s
      | Some r \<Rightarrow> s\<lparr>repositories := (repositories s)(rid \<mapsto> r\<lparr>analysis_status := Some status\<rparr>)\<rparr>)"

text \<open>
  \<open>urlparse\<close> is library code: the parsed reference, with its \<open>netloc\<close> and \<open>path\<close>, is
  the input. \<open>parse_reference\<close> is the part of \<open>analyze_repository\<close> between the first
  status write and the call of \<open>analyze_github_repository\<close>.
\<close>

record parsed_url =
  netloc :: string
  path :: string

definition parse_reference :: "parsed_url \<Rightarrow> exn + string \<times> string" where
  "parse_reference parsed =
     (if \<not> str_in ''github.com'' (netloc parsed) then
        Inl (ValueError ''Only GitHub repositories are supported'')
      else
        (let path_parts = split CHR ''/'' (strip CHR ''/'' (path parsed)) in
         if length path_parts < 2 then Inl (ValueError ''Invalid GitHub repository URL'')
         else Inr (path_parts ! 0, path_parts ! 1)))"

text \<open>
  The part of \<open>analyze_repository\<close> after the \<open>await\<close>: the record is created under a
  fresh identifier (\<open>uuid.uuid4()\<close>, an input here) and stored, then the status is
  written if the repository is still in the store.
\<close>

definition store_analysis :: "string \<Rightarrow> string \<Rightarrow> analysis \<Rightarrow> world \<Rightarrow> world" where
  "store_analysis rid new_id result s =
     (case result of
        (tree, technologies, patterns, recs, score) \<Rightarrow>
          set_status rid ''completed''
            (s\<lparr>analyses := (analyses s)(new_id \<mapsto>
                 \<lparr>analysis_id = new_id, repository_id = rid, file_structure = tree,
                  technologies_detected = technologies, complexity_score = score,
                  vibe_patterns = patterns, recommendations = recs\<rparr>)\<rparr>))"

text \<open>
  \<open>analyze_repository\<close> is a coroutine: while it awaits the remote, the event loop runs
  other request handlers on the same stores. \<open>analyze_repository_during other\<close> is the
  run in which the handlers that execute during the await change the stores by \<open>other\<close>;
  \<open>analyze_repository\<close> is the run that nothing interleaves with. An exception before
  the await is caught by the \<open>except\<close> of the task, which writes \<open>failed\<close>.
\<close>

definition analyze_repository_during ::
    "(world \<Rightarrow> world) \<Rightarrow> string \<Rightarrow> parsed_url \<Rightarrow> string
      \<Rightarrow> repo_json response \<Rightarrow> listing response \<Rightarrow> world \<Rightarrow> world" where
  "analyze_repository_during other rid parsed new_id repo_response contents_response s =
     (let s1 = set_status rid ''analyzing'' s in
      case parse_reference parsed of
        Inl e \<Rightarrow> set_status rid ''failed'' s1
      | Inr (owner, repo_name) \<Rightarrow>
          (case analyze_github_repository repo_response contents_response owner repo_name of
             (reqs, result) \<Rightarrow>
               store_analysis rid new_id result (other (s1\<lparr>requests := requests s1 @ reqs\<rparr>))))"

definition analyze_repository ::
    "string \<Rightarrow> parsed_url \<Rightarrow> string
      \<Rightarrow> repo_json response \<Rightarrow> listing response \<Rightarrow> world \<Rightarrow> world" where
  "analyze_repository = analyze_repository_during (\<lambda>s. s)"

text \<open>
  \<open>delete_repository\<close> answers 404 for an unknown identifier; otherwise it deletes the
  analyses of the repository and then the repository.
\<close>

definition delete_repository :: "string \<Rightarrow> world \<Rightarrow> exn + world" where
  "delete_repository rid s =
     (if repositories s rid = None then Inl (HTTPException 404 ''Repository not found'')
      else Inr (s\<lparr>analyses := (\<lambda>aid. case analyses s aid of
                                   None \<Rightarrow> None
                                 | Some a \<Rightarrow> if repository_id a = rid then None else Some a),
                  repositories := (repositories s)(rid := None)\<rparr>))"

text \<open>The state that a handler leaves: an exception leaves the stores as they were.\<close>

definition handler :: "(world \<Rightarrow> exn + world) \<Rightarrow> world \<Rightarrow> world" where
  "handler h s = (case h s of Inl e \<Rightarrow> s | Inr s' \<Rightarrow> s')"

section \<open>Example inputs\<close>

text \<open>A store with one registered repository, and a well-formed reference.\<close>

definition demo_repository :: GitRepository where
  "demo_repository =
     \<lparr>id = Some ''r1'', url = ''https://github.com/octo/demo'', name = ''demo'',
      description = None, analysis_status = Some ''pending''\<rparr>"

definition demo_world :: world where
  "demo_world =
     \<lparr>repositories = [''r1'' \<mapsto> demo_repository], analyses = Map.empty, requests = []\<rparr>"

definition demo_reference :: parsed_url where
  "demo_reference = \<lparr>netloc = ''github.com'', path = ''/octo/demo''\<rparr>"

text \<open>A reference with an owner and no repository name.\<close>

definition owner_only_reference :: parsed_url where
  "owner_only_reference = \<lparr>netloc = ''github.com'', path = ''/octo/''\<rparr>"

text \<open>Metadata whose size is null, and a reference to a host that is not GitHub.\<close>

definition null_size_metadata :: repo_json where
  "null_size_metadata =
     \<lparr>json_language = Some ''Python'', json_size = Some Not_a_number,
      json_stargazers_count = Some (Number 3), json_forks_count = None\<rparr>"

definition lookalike_reference :: parsed_url where
  "lookalike_reference = \<lparr>netloc = ''notgithub.com'', path = ''/octo/demo''\<rparr>"

text \<open>Trees and listings that the theorems below are evaluated on.\<close>

definition nested_components_tree :: file_structure where
  "nested_components_tree = [(''src/'', Dict [(''components/'', Dict [])])]"

definition components_file_tree :: file_structure where
  "components_file_tree = [(''components.md'', Text ''10 bytes'')]"

definition file_item :: "nat \<Rightarrow> item" where
  "file_item i = Item ''file'' (str_nat i) (str_nat i) None Raises"

definition fifty_entries :: "item list" where
  "fifty_entries =
     Item ''dir'' ''src'' ''src'' None (Response 200 (Some (Listing (map file_item [0..<12]))))
     # map file_item [1..<50]"

definition twenty_keys :: file_structure where
  "twenty_keys =
     (''src/'', Dict (map (\<lambda>i. (str_nat i, Text ''0 bytes'')) [0..<10]))
     # map (\<lambda>i. (str_nat i, Text ''0 bytes'')) [1..<20]"

definition no_metadata :: repo_data where
  "no_metadata = \<lparr>language = None, repo_size = None, stargazers_count = None, forks_count = None\<rparr>"

definition github_listing :: "item list" where
  "github_listing =
     [Item ''dir'' ''.github'' ''.github'' None
        (Response 200 (Some (Listing
           [Item ''dir'' ''workflows'' ''.github/workflows'' None
              (Response 200 (Some (Listing
                 [Item ''file'' ''ci.yml'' ''.github/workflows/ci.yml'' (Some 120) Raises])))])))]"

definition github_tree :: file_structure where
  "github_tree = [(''.github/'', Dict [(''workflows/'', Dict [(''ci.yml'', Text ''120 bytes'')])])]"

definition unlisted_src :: "item list" where
  "unlisted_src = [Item ''dir'' ''src'' ''src'' None (Response 403 None)]"

section \<open>The run of the background task\<close>

lemma parse_demo_reference: "parse_reference demo_reference = Inr (''octo'', ''demo'')"
  by (simp add: parse_reference_def demo_reference_def strip_def)

lemma demo_world_r1: "repositories demo_world ''r1'' = Some demo_repository"
  by (simp add: demo_world_def)

lemma requests_set_status: "requests (set_status rid status s) = requests s"
  by (simp add: set_status_def split: option.split)

text \<open>A run whose fetch raises inside the \<open>try\<close> stores the fallback analysis.\<close>

lemma fallback_run:
  assumes "parse_reference parsed = Inr (owner, repo_name)"
    and "analyze_try repo_response contents_response owner repo_name = (reqs, Inl e)"
  shows "analyze_repository rid parsed new_id repo_response contents_response s
         = store_analysis rid new_id (create_fallback_analysis repo_name)
             (set_status rid ''analyzing'' s
                \<lparr>requests := requests (set_status rid ''analyzing'' s) @ reqs\<rparr>)"
  using assms
  by (simp add: analyze_repository_def analyze_repository_during_def
      analyze_github_repository_def Let_def)

lemma store_analysis_present:
  assumes "repositories s rid = Some r"
  shows "repositories (store_analysis rid new_id (t, techs, pats, recs, score)
                         (set_status rid st s\<lparr>requests := q\<rparr>)) rid
           = Some (r\<lparr>analysis_status := Some ''completed''\<rparr>)"
    and "analyses (store_analysis rid new_id (t, techs, pats, recs, score)
                         (set_status rid st s\<lparr>requests := q\<rparr>)) new_id
           = Some \<lparr>analysis_id = new_id, repository_id = rid, file_structure = t,
                  technologies_detected = techs, complexity_score = score,
                  vibe_patterns = pats, recommendations = recs\<rparr>"
    and "requests (store_analysis rid new_id (t, techs, pats, recs, score)
                         (set_status rid st s\<lparr>requests := q\<rparr>)) = q"
  using assms by (simp_all add: store_analysis_def set_status_def)

text \<open>
  The two ways a run of a registered repository ends: before the fetch when the
  reference does not parse, after it otherwise. The first request of a fetch is the
  one for the metadata.
\<close>

lemma run_unparsed:
  assumes "parse_reference parsed = Inl e" and "repositories s rid = Some r"
  shows "repositories (analyze_repository rid parsed new_id repo_response contents_response s) rid
           = Some (r\<lparr>analysis_status := Some ''failed''\<rparr>)"
    and "analyses (analyze_repository rid parsed new_id repo_response contents_response s)
           = analyses s"
    and "requests (analyze_repository rid parsed new_id repo_response contents_response s)
           = requests s"
  using assms
  by (simp_all add: analyze_repository_def analyze_repository_during_def set_status_def)

lemma run_parsed:
  assumes "parse_reference parsed = Inr (owner, repo_name)" and "repositories s rid = Some r"
  shows "repositories (analyze_repository rid parsed new_id repo_response contents_response s) rid
           = Some (r\<lparr>analysis_status := Some ''completed''\<rparr>)"
    and "\<exists>a. analyses (analyze_repository rid parsed new_id repo_response contents_response s)
               new_id = Some a \<and> repository_id a = rid"
    and "requests (analyze_repository rid parsed new_id repo_response contents_response s)
           = requests s @ fst (analyze_github_repository repo_response contents_response
                                 owner repo_name)"
proof -
  obtain reqs t techs pats recs score where
    g: "analyze_github_repository repo_response contents_response owner repo_name
        = (reqs, t, techs, pats, recs, score)"
    by (metis prod_cases3)
  have run: "analyze_repository rid parsed new_id repo_response contents_response s
      = store_analysis rid new_id (t, techs, pats, recs, score)
          (set_status rid ''analyzing'' s
             \<lparr>requests := requests (set_status rid ''analyzing'' s) @ reqs\<rparr>)"
    using assms(1) g by (simp add: analyze_repository_def analyze_repository_during_def Let_def)
  show "repositories (analyze_repository rid parsed new_id repo_response contents_response s) rid
           = Some (r\<lparr>analysis_status := Some ''completed''\<rparr>)"
    unfolding run using store_analysis_present(1) [OF assms(2)] by simp
  show "\<exists>a. analyses (analyze_repository rid parsed new_id repo_response contents_response s)
               new_id = Some a \<and> repository_id a = rid"
    unfolding run using store_analysis_present(2) [OF assms(2)] by simp
  show "requests (analyze_repository rid parsed new_id repo_response contents_response s)
           = requests s @ fst (analyze_github_repository repo_response contents_response
                                 owner repo_name)"
    unfolding run using store_analysis_present(3) [OF assms(2)] g
    by (simp add: requests_set_status)
qed

lemma first_request:
  "\<exists>rest. fst (analyze_github_repository repo_response contents_response owner repo_name)
     = (api @ owner @ ''/'' @ repo_name) # rest"
  by (auto simp: analyze_github_repository_def analyze_try_def Let_def
      split: response.splits option.splits listing.splits prod.splits sum.splits)

text \<open>
  Claim C2. When the reference is well formed, the repository is in the store and the
  metadata request is answered with a status other than 200, the run sets the status to
  \<open>completed\<close> and stores an analysis of this repository whose technology list is
  \<open>["Unknown"]\<close> and whose score is 1.0; the metadata request is the only one made. The
  body of such a response is never read, so no language is reported on this path: the
  list is \<open>["Unknown"]\<close> in every case.
\<close>

theorem unavailable_repository_completes:
  assumes "parse_reference parsed = Inr (owner, repo_name)"
    and "repositories s rid = Some r"
    and "status_code \<noteq> 200"
  shows "repositories (analyze_repository rid parsed new_id (Response status_code body)
                         contents_response s) rid
           = Some (r\<lparr>analysis_status := Some ''completed''\<rparr>)
       \<and> (\<exists>a. analyses (analyze_repository rid parsed new_id (Response status_code body)
                         contents_response s) new_id = Some a
              \<and> repository_id a = rid
              \<and> technologies_detected a = [''Unknown'']
              \<and> complexity_score a = 1)
       \<and> requests (analyze_repository rid parsed new_id (Response status_code body)
                         contents_response s)
           = requests s @ [api @ owner @ ''/'' @ repo_name]"
proof -
  have t: "analyze_try (Response status_code body) contents_response owner repo_name
           = ([api @ owner @ ''/'' @ repo_name],
              Inl (ValueError (''Repository not found or not accessible: '' @ str_nat status_code)))"
    using assms(3) by (simp add: analyze_try_def)
  show ?thesis
    unfolding fallback_run [OF assms(1) t] create_fallback_analysis_def
    using store_analysis_present [OF assms(2)] by (simp add: requests_set_status)
qed

theorem unavailable_repository_completes_witness:
  "parse_reference demo_reference = Inr (''octo'', ''demo'')
   \<and> repositories demo_world ''r1'' = Some demo_repository
   \<and> (404::nat) \<noteq> 200
   \<and> repositories (analyze_repository ''r1'' demo_reference ''a1'' (Response 404 None)
                         Raises demo_world) ''r1''
           = Some (demo_repository\<lparr>analysis_status := Some ''completed''\<rparr>)
   \<and> (\<exists>a. analyses (analyze_repository ''r1'' demo_reference ''a1'' (Response 404 None)
                         Raises demo_world) ''a1'' = Some a
              \<and> repository_id a = ''r1''
              \<and> technologies_detected a = [''Unknown'']
              \<and> complexity_score a = 1)
   \<and> requests (analyze_repository ''r1'' demo_reference ''a1'' (Response 404 None)
                         Raises demo_world)
           = requests demo_world @ [api @ ''octo'' @ ''/'' @ ''demo'']"
proof -
  have h3: "(404::nat) \<noteq> 200" by simp
  show ?thesis
    using unavailable_repository_completes [OF parse_demo_reference demo_world_r1 h3,
        of "''a1''" None Raises]
    by (simp add: parse_demo_reference demo_world_r1)
qed

text \<open>
  The test of \<open>analyze_repository\<close> on the path, fewer than two parts after stripping
  the slashes at both ends, holds exactly when the path has fewer than two segments that
  are not empty.
\<close>

lemma split_not_Nil: "split c s \<noteq> []"
  by (induction s) (auto split: list.splits)

lemma split_snoc_sep: "split c (s @ [c]) = split c s @ [[]]"
  by (induction s) (auto split: list.splits simp: split_not_Nil)

lemma split_snoc_other: "x \<noteq> c \<Longrightarrow> last (split c (s @ [x])) \<noteq> []"
proof (induction s)
  case Nil
  then show ?case by simp
next
  case (Cons a s)
  then show ?case
    by (cases "split c (s @ [x])") (auto simp: split_not_Nil split: list.splits)
qed

lemma nonempty_dropWhile:
  "filter (\<lambda>w. w \<noteq> []) (split c (dropWhile (\<lambda>x. x = c) p)) = filter (\<lambda>w. w \<noteq> []) (split c p)"
  by (induction p) (auto split: list.splits)

lemma nonempty_strip_right:
  "filter (\<lambda>w. w \<noteq> []) (split c (rev (dropWhile (\<lambda>x. x = c) (rev p))))
   = filter (\<lambda>w. w \<noteq> []) (split c p)"
proof (induction p rule: rev_induct)
  case Nil
  show ?case by simp
next
  case (snoc x xs)
  show ?case
  proof (cases "x = c")
    case True
    then show ?thesis using snoc.IH by (simp add: split_snoc_sep)
  next
    case False
    then show ?thesis by simp
  qed
qed

lemma nonempty_strip:
  "filter (\<lambda>w. w \<noteq> []) (split c (strip c p)) = filter (\<lambda>w. w \<noteq> []) (split c p)"
  unfolding strip_def
  by (simp only: nonempty_strip_right nonempty_dropWhile)

lemma strip_ends:
  assumes "strip c p \<noteq> []"
  shows "hd (strip c p) \<noteq> c" and "last (strip c p) \<noteq> c"
proof -
  let ?q = "dropWhile (\<lambda>x. x = c) p"
  let ?d = "dropWhile (\<lambda>x. x = c) (rev ?q)"
  have d: "?d \<noteq> []" using assms by (simp add: strip_def)
  have "\<not> (hd ?d = c)" using hd_dropWhile [OF d] by simp
  then show "last (strip c p) \<noteq> c" using d by (simp add: strip_def last_rev)
  have "rev ?q = takeWhile (\<lambda>x. x = c) (rev ?q) @ ?d" by simp
  then have "?q = rev ?d @ rev (takeWhile (\<lambda>x. x = c) (rev ?q))"
    by (metis rev_append rev_rev_ident)
  then have q: "?q = strip c p @ rev (takeWhile (\<lambda>x. x = c) (rev ?q))"
    by (simp add: strip_def)
  have qn: "?q \<noteq> []" using d by (metis dropWhile.simps(1) rev.simps(1))
  have "hd ?q \<noteq> c" using hd_dropWhile [OF qn] by simp
  moreover have "hd ?q = hd (strip c p)" using q assms by (metis hd_append2)
  ultimately show "hd (strip c p) \<noteq> c" by simp
qed

lemma hd_split: "s \<noteq> [] \<Longrightarrow> hd s \<noteq> c \<Longrightarrow> hd (split c s) \<noteq> []"
  by (cases s) (auto split: list.splits)

lemma last_split: "s \<noteq> [] \<Longrightarrow> last s \<noteq> c \<Longrightarrow> last (split c s) \<noteq> []"
  using split_snoc_other [of "last s" c "butlast s"] by simp

lemma two_nonempty:
  assumes "2 \<le> length ws" and "hd ws \<noteq> []" and "last ws \<noteq> []"
  shows "2 \<le> length (filter (\<lambda>w. w \<noteq> []) ws)"
proof -
  obtain a ys b where ws: "ws = a # ys @ [b]"
    using assms(1)
    by (metis One_nat_def Suc_1 Suc_le_length_iff append_butlast_last_id length_0_conv
        list.distinct(1) list.size(3))
  then show ?thesis using assms(2,3) by simp
qed

lemma path_check:
  "length (split c (strip c p)) < 2 \<longleftrightarrow> length (filter (\<lambda>w. w \<noteq> []) (split c p)) < 2"
proof
  assume "length (split c (strip c p)) < 2"
  moreover have "length (filter (\<lambda>w. w \<noteq> []) (split c (strip c p))) \<le> length (split c (strip c p))"
    by (rule length_filter_le)
  ultimately show "length (filter (\<lambda>w. w \<noteq> []) (split c p)) < 2"
    by (simp add: nonempty_strip)
next
  assume a: "length (filter (\<lambda>w. w \<noteq> []) (split c p)) < 2"
  show "length (split c (strip c p)) < 2"
  proof (rule ccontr)
    assume "\<not> length (split c (strip c p)) < 2"
    then have l: "2 \<le> length (split c (strip c p))" by simp
    have n: "strip c p \<noteq> []"
    proof
      assume "strip c p = []"
      then show False using l by simp
    qed
    have "2 \<le> length (filter (\<lambda>w. w \<noteq> []) (split c (strip c p)))"
      using l hd_split [OF n strip_ends(1) [OF n]] last_split [OF n strip_ends(2) [OF n]]
      by (rule two_nonempty)
    then show False using a by (simp add: nonempty_strip)
  qed
qed

text \<open>
  What the guard of \<open>analyze_repository\<close> rejects: a host that does not contain
  \<open>github.com\<close>, or a path with fewer than two segments that are not empty. The run of a
  registered repository then ends with the status \<open>failed\<close>, the analyses store is as
  it was and no request has been made.
\<close>

lemma guard_rejects:
  assumes "\<not> str_in ''github.com'' (netloc parsed) \<or> length (segments (path parsed)) < 2"
    and "repositories s rid = Some r"
  shows "repositories (analyze_repository rid parsed new_id repo_response contents_response s) rid
           = Some (r\<lparr>analysis_status := Some ''failed''\<rparr>)
       \<and> analyses (analyze_repository rid parsed new_id repo_response contents_response s)
           = analyses s
       \<and> requests (analyze_repository rid parsed new_id repo_response contents_response s)
           = requests s"
proof -
  have "\<not> str_in ''github.com'' (netloc parsed)
        \<or> length (split CHR ''/'' (strip CHR ''/'' (path parsed))) < 2"
    using assms(1) path_check [of "CHR ''/''" "path parsed"] by (simp add: segments_def)
  then have "\<exists>e. parse_reference parsed = Inl e"
    by (cases "str_in ''github.com'' (netloc parsed)") (simp_all add: parse_reference_def Let_def)
  then obtain e where "parse_reference parsed = Inl e" ..
  then show ?thesis
    using assms(2)
    by (simp add: analyze_repository_def analyze_repository_during_def set_status_def)
qed

text \<open>
  Claim C7 at a reference whose host is not GitHub. The guard tests whether the host
  contains \<open>github.com\<close>, which \<open>notgithub.com\<close> and \<open>github.com.evil.org\<close> do: the
  reference is accepted, the run asks the GitHub API for \<open>octo/demo\<close>, records an
  analysis and ends with the status \<open>completed\<close>, whatever the remote answers.
\<close>

theorem lookalike_host_accepted:
  "parse_reference lookalike_reference = Inr (''octo'', ''demo'')
   \<and> parse_reference \<lparr>netloc = ''github.com.evil.org'', path = ''/octo/demo''\<rparr>
       = Inr (''octo'', ''demo'')
   \<and> repositories (analyze_repository ''r1'' lookalike_reference ''a1''
         repo_response contents_response demo_world) ''r1''
       = Some (demo_repository\<lparr>analysis_status := Some ''completed''\<rparr>)
   \<and> (\<exists>a. analyses (analyze_repository ''r1'' lookalike_reference ''a1''
               repo_response contents_response demo_world) ''a1'' = Some a
          \<and> repository_id a = ''r1'')
   \<and> (\<exists>rest. requests (analyze_repository ''r1'' lookalike_reference ''a1''
               repo_response contents_response demo_world)
          = ''https://api.github.com/repos/octo/demo'' # rest)"
proof -
  have p: "parse_reference lookalike_reference = Inr (''octo'', ''demo'')"
    by (simp add: parse_reference_def lookalike_reference_def strip_def)
  have p': "parse_reference \<lparr>netloc = ''github.com.evil.org'', path = ''/octo/demo''\<rparr>
       = Inr (''octo'', ''demo'')"
    by (simp add: parse_reference_def strip_def)
  have q: "requests demo_world = []" by (simp add: demo_world_def)
  have "\<exists>rest. requests (analyze_repository ''r1'' lookalike_reference ''a1''
               repo_response contents_response demo_world)
          = ''https://api.github.com/repos/octo/demo'' # rest"
    using run_parsed(3) [OF p demo_world_r1, of "''a1''" repo_response contents_response]
      first_request [of repo_response contents_response "''octo''" "''demo''"] q
    by (auto simp: api_def)
  then show ?thesis
    using p p' run_parsed(1,2) [OF p demo_world_r1, of "''a1''" repo_response contents_response]
    by blast
qed

text \<open>
  Claim C1, as the code has it. A failure raised inside the \<open>try\<close> of
  \<open>analyze_github_repository\<close>, while the remote is fetched or while the heuristics
  compute, is caught by its \<open>except\<close>, which returns the fallback analysis: the run of a
  registered repository stores that analysis, with the technology \<open>Unknown\<close> and the
  score 1.0, and sets the status to \<open>completed\<close>. The run ends with the status
  \<open>failed\<close> exactly when the reference does not parse, and then the analyses store is
  as it was.
\<close>

theorem fetch_failure_stores_fallback:
  assumes "repositories s rid = Some r"
  shows "(parse_reference parsed = Inr (owner, repo_name)
            \<and> analyze_try repo_response contents_response owner repo_name = (reqs, Inl e)
          \<longrightarrow> repositories (analyze_repository rid parsed new_id repo_response
                              contents_response s) rid
                = Some (r\<lparr>analysis_status := Some ''completed''\<rparr>)
              \<and> analyses (analyze_repository rid parsed new_id repo_response
                              contents_response s) new_id
                = Some \<lparr>analysis_id = new_id, repository_id = rid,
                    file_structure = [(''error'', Text ''Unable to analyze repository structure'')],
                    technologies_detected = [''Unknown''], complexity_score = 1,
                    vibe_patterns = [''Analysis failed due to API limitations''],
                    recommendations = [''Repository could not be analyzed'',
                                       ''Check repository accessibility'']\<rparr>)
       \<and> ((repositories (analyze_repository rid parsed new_id repo_response
                              contents_response s) rid
             = Some (r\<lparr>analysis_status := Some ''failed''\<rparr>))
            = (\<exists>e'. parse_reference parsed = Inl e'))
       \<and> ((\<exists>e'. parse_reference parsed = Inl e')
          \<longrightarrow> analyses (analyze_repository rid parsed new_id repo_response contents_response s)
                = analyses s)"
proof (intro conjI impI)
  assume a: "parse_reference parsed = Inr (owner, repo_name)
            \<and> analyze_try repo_response contents_response owner repo_name = (reqs, Inl e)"
  show "repositories (analyze_repository rid parsed new_id repo_response
                              contents_response s) rid
                = Some (r\<lparr>analysis_status := Some ''completed''\<rparr>)"
    using a run_parsed(1) [OF _ assms] by blast
  show "analyses (analyze_repository rid parsed new_id repo_response
                              contents_response s) new_id
                = Some \<lparr>analysis_id = new_id, repository_id = rid,
                    file_structure = [(''error'', Text ''Unable to analyze repository structure'')],
                    technologies_detected = [''Unknown''], complexity_score = 1,
                    vibe_patterns = [''Analysis failed due to API limitations''],
                    recommendations = [''Repository could not be analyzed'',
                                       ''Check repository accessibility'']\<rparr>"
    using a fallback_run [of parsed owner repo_name repo_response contents_response reqs e]
      store_analysis_present(2) [OF assms]
    by (simp add: create_fallback_analysis_def)
next
  show "(repositories (analyze_repository rid parsed new_id repo_response
                              contents_response s) rid
             = Some (r\<lparr>analysis_status := Some ''failed''\<rparr>))
            = (\<exists>e'. parse_reference parsed = Inl e')"
  proof (cases "parse_reference parsed")
    case (Inl e')
    then show ?thesis using run_unparsed(1) [OF Inl assms] by simp
  next
    case (Inr p)
    obtain ow rn where p: "p = (ow, rn)" by (cases p)
    have "repositories (analyze_repository rid parsed new_id repo_response
                              contents_response s) rid
          = Some (r\<lparr>analysis_status := Some ''completed''\<rparr>)"
      using run_parsed(1) [OF _ assms] Inr p by blast
    moreover have "r\<lparr>analysis_status := Some ''completed''\<rparr>
                   \<noteq> r\<lparr>analysis_status := Some ''failed''\<rparr>"
    proof
      assume "r\<lparr>analysis_status := Some ''completed''\<rparr>
              = r\<lparr>analysis_status := Some ''failed''\<rparr>"
      then have "analysis_status (r\<lparr>analysis_status := Some ''completed''\<rparr>)
                 = analysis_status (r\<lparr>analysis_status := Some ''failed''\<rparr>)"
        by (rule arg_cong)
      then show False by simp
    qed
    ultimately show ?thesis using Inr by simp
  qed
next
  assume "\<exists>e'. parse_reference parsed = Inl e'"
  then obtain e' where "parse_reference parsed = Inl e'" ..
  then show "analyses (analyze_repository rid parsed new_id repo_response contents_response s)
                = analyses s"
    using run_unparsed(2) [OF _ assms] by blast
qed

lemma analyze_try_raises: "analyze_try Raises contents_response owner repo_name
    = ([api @ owner @ ''/'' @ repo_name], Inl RequestError)"
  by (simp add: analyze_try_def)

lemma analyze_try_null_size:
  "analyze_try (Response 200 (Some null_size_metadata)) (Response 200 (Some (Listing [])))
     ''octo'' ''demo''
   = ([api @ ''octo'' @ ''/'' @ ''demo'', (api @ ''octo'' @ ''/'' @ ''demo'') @ ''/contents''],
      Inl TypeError)"
  by (simp add: analyze_try_def analyze_contents_def run_heuristics_def read_number_def
      null_size_metadata_def)

lemma parse_owner_only:
  "parse_reference owner_only_reference = Inl (ValueError ''Invalid GitHub repository URL'')"
  by (simp add: parse_reference_def owner_only_reference_def strip_def)

theorem fetch_failure_stores_fallback_witness:
  "repositories demo_world ''r1'' = Some demo_repository
   \<and> parse_reference demo_reference = Inr (''octo'', ''demo'')
   \<and> analyze_try Raises Raises ''octo'' ''demo''
       = ([api @ ''octo'' @ ''/'' @ ''demo''], Inl RequestError)
   \<and> repositories (analyze_repository ''r1'' demo_reference ''a1'' Raises Raises demo_world) ''r1''
       = Some (demo_repository\<lparr>analysis_status := Some ''completed''\<rparr>)
   \<and> analyses (analyze_repository ''r1'' demo_reference ''a1'' Raises Raises demo_world) ''a1''
       = Some \<lparr>analysis_id = ''a1'', repository_id = ''r1'',
                file_structure = [(''error'', Text ''Unable to analyze repository structure'')],
                technologies_detected = [''Unknown''], complexity_score = 1,
                vibe_patterns = [''Analysis failed due to API limitations''],
                recommendations = [''Repository could not be analyzed'',
                                   ''Check repository accessibility'']\<rparr>
   \<and> analyze_try (Response 200 (Some null_size_metadata)) (Response 200 (Some (Listing [])))
         ''octo'' ''demo''
       = ([api @ ''octo'' @ ''/'' @ ''demo'', (api @ ''octo'' @ ''/'' @ ''demo'') @ ''/contents''],
          Inl TypeError)
   \<and> repositories (analyze_repository ''r1'' demo_reference ''a1''
         (Response 200 (Some null_size_metadata)) (Response 200 (Some (Listing []))) demo_world) ''r1''
       = Some (demo_repository\<lparr>analysis_status := Some ''completed''\<rparr>)
   \<and> analyses (analyze_repository ''r1'' demo_reference ''a1''
         (Response 200 (Some null_size_metadata)) (Response 200 (Some (Listing []))) demo_world) ''a1''
       = Some \<lparr>analysis_id = ''a1'', repository_id = ''r1'',
                file_structure = [(''error'', Text ''Unable to analyze repository structure'')],
                technologies_detected = [''Unknown''], complexity_score = 1,
                vibe_patterns = [''Analysis failed due to API limitations''],
                recommendations = [''Repository could not be analyzed'',
                                   ''Check repository accessibility'']\<rparr>
   \<and> parse_reference owner_only_reference = Inl (ValueError ''Invalid GitHub repository URL'')
   \<and> repositories (analyze_repository ''r1'' owner_only_reference ''a1'' Raises Raises demo_world) ''r1''
       = Some (demo_repository\<lparr>analysis_status := Some ''failed''\<rparr>)
   \<and> analyses (analyze_repository ''r1'' owner_only_reference ''a1'' Raises Raises demo_world)
       = analyses demo_world"
proof -
  note t = fetch_failure_stores_fallback [OF demo_world_r1]
  have 1: "repositories (analyze_repository ''r1'' demo_reference ''a1'' Raises Raises demo_world) ''r1''
       = Some (demo_repository\<lparr>analysis_status := Some ''completed''\<rparr>)
   \<and> analyses (analyze_repository ''r1'' demo_reference ''a1'' Raises Raises demo_world) ''a1''
       = Some \<lparr>analysis_id = ''a1'', repository_id = ''r1'',
                file_structure = [(''error'', Text ''Unable to analyze repository structure'')],
                technologies_detected = [''Unknown''], complexity_score = 1,
                vibe_patterns = [''Analysis failed due to API limitations''],
                recommendations = [''Repository could not be analyzed'',
                                   ''Check repository accessibility'']\<rparr>"
    using t [where parsed = demo_reference and owner = "''octo''" and repo_name = "''demo''"
        and repo_response = Raises and contents_response = Raises and new_id = "''a1''"
        and reqs = "[api @ ''octo'' @ ''/'' @ ''demo'']" and e = RequestError]
      parse_demo_reference analyze_try_raises [of Raises "''octo''" "''demo''"]
    by blast
  have 2: "repositories (analyze_repository ''r1'' demo_reference ''a1''
         (Response 200 (Some null_size_metadata)) (Response 200 (Some (Listing []))) demo_world) ''r1''
       = Some (demo_repository\<lparr>analysis_status := Some ''completed''\<rparr>)
   \<and> analyses (analyze_repository ''r1'' demo_reference ''a1''
         (Response 200 (Some null_size_metadata)) (Response 200 (Some (Listing []))) demo_world) ''a1''
       = Some \<lparr>analysis_id = ''a1'', repository_id = ''r1'',
                file_structure = [(''error'', Text ''Unable to analyze repository structure'')],
                technologies_detected = [''Unknown''], complexity_score = 1,
                vibe_patterns = [''Analysis failed due to API limitations''],
                recommendations = [''Repository could not be analyzed'',
                                   ''Check repository accessibility'']\<rparr>"
    using t [where parsed = demo_reference and owner = "''octo''" and repo_name = "''demo''"
        and repo_response = "Response 200 (Some null_size_metadata)"
        and contents_response = "Response 200 (Some (Listing []))" and new_id = "''a1''"
        and reqs = "[api @ ''octo'' @ ''/'' @ ''demo'',
                     (api @ ''octo'' @ ''/'' @ ''demo'') @ ''/contents'']" and e = TypeError]
      parse_demo_reference analyze_try_null_size
    by blast
  have 3: "repositories (analyze_repository ''r1'' owner_only_reference ''a1'' Raises Raises demo_world) ''r1''
       = Some (demo_repository\<lparr>analysis_status := Some ''failed''\<rparr>)
   \<and> analyses (analyze_repository ''r1'' owner_only_reference ''a1'' Raises Raises demo_world)
       = analyses demo_world"
    using t [where parsed = owner_only_reference and repo_response = Raises
        and contents_response = Raises and new_id = "''a1''"]
      parse_owner_only
    by blast
  show ?thesis
    using 1 2 3 demo_world_r1 parse_demo_reference parse_owner_only analyze_try_null_size
      analyze_try_raises [of Raises "''octo''" "''demo''"]
    by blast
qed

text \<open>
  Claim C1 as stated fails: when the metadata request raises, the status of the
  repository is not \<open>failed\<close> and an analysis that was not in the store is recorded.
\<close>

theorem fetch_failure_counterexample:
  "repositories (analyze_repository ''r1'' demo_reference ''a1'' Raises Raises demo_world) ''r1''
     \<noteq> Some (demo_repository\<lparr>analysis_status := Some ''failed''\<rparr>)
   \<and> analyses demo_world ''a1'' = None
   \<and> analyses (analyze_repository ''r1'' demo_reference ''a1'' Raises Raises demo_world) ''a1''
     \<noteq> None"
  by (simp add: fallback_run [OF parse_demo_reference analyze_try_raises]
      store_analysis_def set_status_def demo_world_def create_fallback_analysis_def
      demo_repository_def)

text \<open>
  Claim C9. A registered repository with a well-formed reference is deleted by
  \<open>delete_repository\<close> while the run awaits the remote. The run still stores a new
  analysis with the identifier of the deleted repository, and the repository store is
  the original one without that repository: the status write is skipped.
\<close>

theorem analysis_outlives_repository:
  assumes "parse_reference parsed = Inr (owner, repo_name)"
    and "repositories s rid = Some r"
  shows "repositories (analyze_repository_during (handler (delete_repository rid))
            rid parsed new_id repo_response contents_response s)
           = (repositories s)(rid := None)
       \<and> (\<exists>a. analyses (analyze_repository_during (handler (delete_repository rid))
            rid parsed new_id repo_response contents_response s) new_id = Some a
              \<and> repository_id a = rid)"
proof -
  obtain reqs t techs pats recs score where
    g: "analyze_github_repository repo_response contents_response owner repo_name
        = (reqs, t, techs, pats, recs, score)"
    by (metis prod_cases3)
  show ?thesis
    using assms g
    by (auto simp: analyze_repository_during_def handler_def delete_repository_def
        store_analysis_def set_status_def)
qed

theorem analysis_outlives_repository_witness:
  "parse_reference demo_reference = Inr (''octo'', ''demo'')
   \<and> repositories demo_world ''r1'' = Some demo_repository
   \<and> repositories (analyze_repository_during (handler (delete_repository ''r1''))
            ''r1'' demo_reference ''a1'' Raises Raises demo_world)
           = (repositories demo_world)(''r1'' := None)
   \<and> (\<exists>a. analyses (analyze_repository_during (handler (delete_repository ''r1''))
            ''r1'' demo_reference ''a1'' Raises Raises demo_world) ''a1'' = Some a
              \<and> repository_id a = ''r1'')"
  using analysis_outlives_repository [OF parse_demo_reference demo_world_r1,
      where new_id = "''a1''" and repo_response = Raises and contents_response = Raises]
    parse_demo_reference demo_world_r1
  by simp

section \<open>The fetcher and the heuristics on trees\<close>

lemma startswith_iff: "startswith s sub \<longleftrightarrow> (\<exists>q. s = sub @ q)"
  by (induction s sub rule: startswith.induct) auto

lemma str_in_iff: "str_in sub s \<longleftrightarrow> (\<exists>p q. s = p @ sub @ q)"
proof (induction s)
  case Nil
  show ?case by auto
next
  case (Cons x xs)
  show ?case
  proof
    assume "str_in sub (x # xs)"
    then consider "startswith (x # xs) sub" | "str_in sub xs" by auto
    then show "\<exists>p q. x # xs = p @ sub @ q"
    proof cases
      case 1
      then obtain q where "x # xs = sub @ q" using startswith_iff by blast
      then have "x # xs = [] @ sub @ q" by simp
      then show ?thesis by blast
    next
      case 2
      then obtain p q where "xs = p @ sub @ q" using Cons.IH by blast
      then have "x # xs = (x # p) @ sub @ q" by simp
      then show ?thesis by blast
    qed
  next
    assume "\<exists>p q. x # xs = p @ sub @ q"
    then obtain p q where e: "x # xs = p @ sub @ q" by blast
    show "str_in sub (x # xs)"
    proof (cases p)
      case Nil
      then have "startswith (x # xs) sub" using e startswith_iff by auto
      then show ?thesis by simp
    next
      case (Cons y ys)
      then have "xs = ys @ sub @ q" using e by simp
      then have "str_in sub xs" using Cons.IH by blast
      then show ?thesis by simp
    qed
  qed
qed

text \<open>
  Claim C3, as the code has it. \<open>has_directory\<close> holds exactly when some key of the top
  level of the tree, of a file or of a directory, contains the name as a substring;
  nested levels are not searched.
\<close>

theorem has_directory_top_level:
  "has_directory t sub \<longleftrightarrow> (\<exists>(key, v) \<in> set t. \<exists>p q. key = p @ sub @ q)"
  unfolding has_directory_def keys_def list_ex_iff str_in_iff
  by (simp add: case_prod_beta)

text \<open>
  Claim C3 as stated fails in both directions: a directory \<open>components/\<close> nested in
  \<open>src/\<close> is not found, and a top-level file \<open>components.md\<close> is taken for a directory.
\<close>

theorem has_directory_counterexample:
  "directory_key_anywhere ''components'' nested_components_tree
   \<and> \<not> has_directory nested_components_tree ''components''
   \<and> has_directory components_file_tree ''components''
   \<and> \<not> directory_key_anywhere ''components'' components_file_tree"
  by (simp add: nested_components_tree_def components_file_tree_def has_directory_def keys_def)

lemma count_files_split: "count_files t = file_leaves t + placeholders t"
  by (induction t rule: count_files.induct) (auto split: content.splits)

lemma length_dict_set: "length (dict_set d k v) \<le> Suc (length d)"
  by (induction d) auto

lemma set_keys_dict_set: "set (keys (dict_set d k v)) = insert k (set (keys d))"
proof (induction d)
  case Nil
  show ?case by (simp add: keys_def)
next
  case (Cons a d)
  obtain k' v' where a: "a = (k', v')" by (cases a)
  show ?case using Cons.IH by (cases "k' = k") (auto simp: a keys_def)
qed

lemma distinct_keys_dict_set: "distinct (keys d) \<Longrightarrow> distinct (keys (dict_set d k v))"
proof (induction d)
  case Nil
  show ?case by (simp add: keys_def)
next
  case (Cons a d)
  obtain k' v' where a: "a = (k', v')" by (cases a)
  have "k' \<notin> set (keys d)" and "distinct (keys d)"
    using Cons.prems by (simp_all add: a keys_def)
  then show ?case
    using Cons.IH set_keys_dict_set [of d k v] by (auto simp: a keys_def)
qed

lemma nested_at_most_dict_set:
  "nested_at_most n d \<Longrightarrow> value_at_most n v \<Longrightarrow> nested_at_most n (dict_set d k v)"
  by (induction d) (auto simp: value_at_most_def)

lemma build_bounds:
  "build_file_structure owner repo_name contents = (reqs, Inr t) \<Longrightarrow>
     length t \<le> length contents \<and> length t \<le> 20 \<and> distinct (keys t) \<and> nested_at_most 10 t"
  "build_items owner repo_name items st = (reqs', Inr t') \<Longrightarrow>
     length t' \<le> length st + length items
     \<and> (distinct (keys st) \<longrightarrow> distinct (keys t'))
     \<and> (nested_at_most 10 st \<longrightarrow> nested_at_most 10 t')"
proof (induction owner repo_name contents and owner repo_name items st
    arbitrary: reqs t and reqs' t' rule: build_file_structure_build_items.induct)
  case (1 owner repo_name contents)
  have "build_items owner repo_name (take 20 contents) [] = (reqs, Inr t)"
    using "1.prems" by simp
  from "1.IH" [OF this] show ?case by (simp add: keys_def)
next
  case (2 owner repo_name st)
  then show ?case by simp
next
  case (3 owner repo_name rest st)
  then show ?case by simp
next
  case (4 owner repo_name ty nm pth sz dir_response rest st)
  show ?case
  proof (cases "ty = ''dir''")
    case False
    let ?st = "dict_set st nm (Text (str_int (case sz of None \<Rightarrow> 0 | Some n \<Rightarrow> n) @ '' bytes''))"
    have "build_items owner repo_name rest ?st = (reqs', Inr t')"
      using "4.prems" False by simp
    from "4.IH"(3) [OF False this] show ?thesis
      using length_dict_set [of st] distinct_keys_dict_set [of st]
        nested_at_most_dict_set [of 10 st]
      by (auto simp: value_at_most_def intro: order_trans)
  next
    case True
    obtain nested v where nv: "(case dir_response of
                  Raises \<Rightarrow> ([], Empty_list)
                | Response status_code body \<Rightarrow>
                    if status_code = 200 then
                      (case body of
                         None \<Rightarrow> ([], Empty_list)
                       | Some Not_a_list \<Rightarrow> ([], Empty_list)
                       | Some (Json_string str) \<Rightarrow> ([], Empty_list)
                       | Some (Listing dir_contents) \<Rightarrow>
                           (case build_file_structure owner repo_name (take 10 dir_contents) of
                              (reqs, Inl e) \<Rightarrow> (reqs, Empty_list)
                            | (reqs, Inr sub) \<Rightarrow> (reqs, Dict sub)))
                    else ([], Empty_list)) = (nested, v)"
      by (cases "(case dir_response of
                  Raises \<Rightarrow> ([], Empty_list)
                | Response status_code body \<Rightarrow>
                    if status_code = 200 then
                      (case body of
                         None \<Rightarrow> ([], Empty_list)
                       | Some Not_a_list \<Rightarrow> ([], Empty_list)
                       | Some (Json_string str) \<Rightarrow> ([], Empty_list)
                       | Some (Listing dir_contents) \<Rightarrow>
                           (case build_file_structure owner repo_name (take 10 dir_contents) of
                              (reqs, Inl e) \<Rightarrow> (reqs, Empty_list)
                            | (reqs, Inr sub) \<Rightarrow> (reqs, Dict sub)))
                    else ([], Empty_list))") 
    have v: "value_at_most 10 v"
      using nv "4.IH"(1) [OF True]
      by (auto simp: value_at_most_def split: response.splits if_splits option.splits
          listing.splits prod.splits sum.splits)
    obtain later where l: "build_items owner repo_name rest (dict_set st (nm @ ''/'') v) = (later, Inr t')"
      using "4.prems" True nv by (auto simp: Let_def split: prod.splits)
    have "length t' \<le> length (dict_set st (nm @ ''/'') v) + length rest
     \<and> (distinct (keys (dict_set st (nm @ ''/'') v)) \<longrightarrow> distinct (keys t'))
     \<and> (nested_at_most 10 (dict_set st (nm @ ''/'') v) \<longrightarrow> nested_at_most 10 t')"
      using "4.IH"(2) [OF True refl nv [symmetric] refl l] .
    then show ?thesis
      using length_dict_set [of st "nm @ ''/''" v] distinct_keys_dict_set [of st "nm @ ''/''" v]
        nested_at_most_dict_set [of 10 st v "nm @ ''/''"] v
      by auto
  qed
qed

lemma build_fifty_entries:
  "build_file_structure ''octo'' ''demo'' fifty_entries
   = ([''https://api.github.com/repos/octo/demo/contents/src''], Inr twenty_keys)"
  by code_simp

text \<open>
  Claim C6. A tree that the fetcher returns has at most 20 entries at the top level,
  under keys that differ, and every nested dict at any depth has at most 10.
\<close>

theorem fetcher_fan_out:
  assumes "build_file_structure owner repo_name contents = (reqs, Inr t)"
  shows "length t \<le> 20 \<and> distinct (keys t) \<and> nested_at_most 10 t"
  using build_bounds(1) [OF assms] by simp

theorem fetcher_fan_out_witness:
  "length fifty_entries = 50
   \<and> build_file_structure ''octo'' ''demo'' fifty_entries
       = ([''https://api.github.com/repos/octo/demo/contents/src''], Inr twenty_keys)
   \<and> length twenty_keys \<le> 20 \<and> distinct (keys twenty_keys) \<and> nested_at_most 10 twenty_keys"
  using fetcher_fan_out [OF build_fifty_entries] build_fifty_entries
  by (simp add: fifty_entries_def)

text \<open>
  Claim C4 at a repository with the directory \<open>.github\<close>. The fetcher stores a directory
  under its name followed by a slash, as a dict or as \<open>[]\<close>; \<open>scan_files\<close> does not match
  the name of a dict, and the name of a placeholder is \<open>.github/\<close>. The label
  \<open>GitHub Actions\<close> is not detected; it is detected for a file named \<open>.github\<close>.
\<close>

theorem github_directory_not_detected:
  "build_file_structure ''octo'' ''demo'' github_listing
     = ([''https://api.github.com/repos/octo/demo/contents/.github'',
         ''https://api.github.com/repos/octo/demo/contents/.github/workflows''],
        Inr github_tree)
   \<and> ''GitHub Actions'' \<notin> set (detect_technologies github_tree no_metadata)
   \<and> detect_technologies [(''.github/'', Empty_list)] no_metadata = []
   \<and> detect_technologies [(''.github'', Text ''0 bytes'')] no_metadata = [''GitHub Actions'']"
  by code_simp

text \<open>
  Claim C8 at a repository with one directory whose listing is refused: the tree has no
  file, and \<open>count_files\<close> returns 1.
\<close>

theorem unlisted_directory_counted:
  "build_file_structure ''octo'' ''demo'' unlisted_src
     = ([''https://api.github.com/repos/octo/demo/contents/src''], Inr [(''src/'', Empty_list)])
   \<and> count_files [(''src/'', Empty_list)] = 1
   \<and> file_leaves [(''src/'', Empty_list)] = 0"
  by code_simp

text \<open>
  Claim C10. When the request for a directory raises, is answered with a status other
  than 200, or with a body that is not a JSON list, the loop of the fetcher makes that one
  request, stores the empty list under the name of the directory followed by a slash and
  goes on. \<open>count_files\<close> counts every such placeholder, at any depth, once, as it counts
  a file: the count of a tree is its files plus its placeholders, and the complexity
  score of a tree with a placeholder is the score of the tree with a file in its place.
  A directory whose recursive call raises is stored in the same way.
\<close>

theorem degraded_directory_counts_as_file:
  assumes "degraded dir_response"
  shows "build_items owner repo_name (Item ''dir'' nm pth sz dir_response # rest) st
           = (case build_items owner repo_name rest (dict_set st (nm @ ''/'') Empty_list) of
                (later, result) \<Rightarrow>
                  ((api @ owner @ ''/'' @ repo_name @ ''/contents/'' @ pth) # later, result))
       \<and> count_files t = file_leaves t + placeholders t
       \<and> count_files [(nm @ ''/'', Empty_list)] = count_files [(nm, Text descr)]
       \<and> calculate_complexity_score [(nm @ ''/'', Empty_list)] technologies meta
           = calculate_complexity_score [(nm, Text descr)] technologies meta"
proof -
  have "build_items owner repo_name (Item ''dir'' nm pth sz dir_response # rest) st
           = (case build_items owner repo_name rest (dict_set st (nm @ ''/'') Empty_list) of
                (later, result) \<Rightarrow>
                  ((api @ owner @ ''/'' @ repo_name @ ''/contents/'' @ pth) # later, result))"
    using assms
    by (cases dir_response) (auto simp: Let_def split: prod.splits option.splits listing.splits)
  moreover have "calculate_complexity_score [(nm @ ''/'', Empty_list)] technologies meta
           = calculate_complexity_score [(nm, Text descr)] technologies meta"
    by (simp add: calculate_complexity_score_def)
  ultimately show ?thesis using count_files_split [of t] by simp
qed

theorem degraded_directory_counts_as_file_witness:
  "degraded (Response 403 None)
   \<and> build_items ''octo'' ''demo'' [Item ''dir'' ''src'' ''src'' None (Response 403 None)] []
       = ([''https://api.github.com/repos/octo/demo/contents/src''], Inr [(''src/'', Empty_list)])
   \<and> count_files [(''src/'', Empty_list), (''docs/'', Dict [(''old/'', Empty_list)])] = 2
   \<and> count_files [(''src/'', Empty_list)] = count_files [(''src'', Text ''0 bytes'')]
   \<and> calculate_complexity_score [(''src/'', Empty_list)] [] no_metadata
       = calculate_complexity_score [(''src'', Text ''0 bytes'')] [] no_metadata"
proof -
  have d: "degraded (Response 403 None)" by simp
  show ?thesis
    using degraded_directory_counts_as_file [OF d, where owner = "''octo''"
        and repo_name = "''demo''" and nm = "''src''" and pth = "''src''" and sz = None
        and rest = "[]" and st = "[]" and descr = "''0 bytes''"
        and t = "[(''src/'', Empty_list), (''docs/'', Dict [(''old/'', Empty_list)])]"
        and technologies = "[]" and meta = no_metadata]
    by (simp add: api_def)
qed

section \<open>Rounding and the complexity score\<close>

lemma rhe_of_int: "rhe (of_int n) = n"
  by (simp add: rhe_def)

lemma rhe_floor: "\<lfloor>r\<rfloor> \<le> rhe r \<and> rhe r \<le> \<lfloor>r\<rfloor> + 1"
  by (simp add: rhe_def Let_def)

lemma rhe_mono: assumes "r \<le> s" shows "rhe r \<le> rhe s"
proof (cases "\<lfloor>r\<rfloor> = \<lfloor>s\<rfloor>")
  case True
  have "r - of_int \<lfloor>r\<rfloor> \<le> s - of_int \<lfloor>s\<rfloor>" using assms True by simp
  then show ?thesis using True by (auto simp: rhe_def Let_def)
next
  case False
  have "\<lfloor>r\<rfloor> \<le> \<lfloor>s\<rfloor>" using assms by (rule floor_mono)
  then have "\<lfloor>r\<rfloor> + 1 \<le> \<lfloor>s\<rfloor>" using False by simp
  then show ?thesis using rhe_floor [of r] rhe_floor [of s] by linarith
qed

lemma int_bitlen:
  assumes "0 < (p::int)"
  shows "(2::rat) powi (bitlen p - 1) \<le> of_int p" and "of_int p < (2::rat) powi (bitlen p)"
proof -
  have b: "2 ^ nat (bitlen p - 1) \<le> p" "p < 2 ^ nat (bitlen p)"
    using bitlen_bounds [OF assms] by simp_all
  have n: "0 \<le> bitlen p - 1" using assms bitlen_eq_zero_iff [of p] bitlen_nonneg [of p] by simp
  have "(2::rat) powi (bitlen p - 1) = of_int (2 ^ nat (bitlen p - 1))"
    using n by (simp add: power_int_def)
  also have "\<dots> \<le> of_int p" using b(1) by (simp only: of_int_le_iff)
  finally show "(2::rat) powi (bitlen p - 1) \<le> of_int p" .
  have "(of_int p :: rat) < of_int (2 ^ nat (bitlen p))" using b(2) by (simp only: of_int_less_iff)
  also have "\<dots> = 2 powi (bitlen p)" using bitlen_nonneg [of p] by (simp add: power_int_def)
  finally show "of_int p < (2::rat) powi (bitlen p)" .
qed

lemma expo_bounds:
  assumes "0 < x"
  shows "2 powi (expo x) \<le> x" and "x < 2 powi (expo x + 1)"
proof -
  obtain p q where pq: "quotient_of x = (p, q)" by (cases "quotient_of x")
  have q: "0 < q" using pq by (rule quotient_of_denom_pos)
  have x: "x = of_int p / of_int q" using pq by (rule quotient_of_div)
  have p: "0 < p" using assms q x by (simp add: zero_less_divide_iff)
  define a where "a = bitlen p"
  define b where "b = bitlen q"
  have a1: "1 \<le> a" using p bitlen_eq_zero_iff [of p] bitlen_nonneg [of p] by (simp add: a_def)
  have b1: "1 \<le> b" using q bitlen_eq_zero_iff [of q] bitlen_nonneg [of q] by (simp add: b_def)
  have pa: "(2::rat) powi (a - 1) \<le> of_int p" "of_int p < (2::rat) powi a"
    using int_bitlen [OF p] a1 by (simp_all add: a_def)
  have qb: "(2::rat) powi (b - 1) \<le> of_int q" "of_int q < (2::rat) powi b"
    using int_bitlen [OF q] b1 by (simp_all add: b_def)
  have qpos: "(0::rat) < of_int q" using q by simp
  have "(2::rat) powi (a - b - 1) = 2 powi (a - 1) / 2 powi b"
    using power_int_diff [of "2::rat" "a - 1" b] by (simp add: algebra_simps)
  also have "\<dots> \<le> of_int p / 2 powi b"
    using pa(1) by (simp add: divide_right_mono)
  also have "\<dots> < of_int p / of_int q"
    using qb(2) qpos p by (simp add: divide_strict_left_mono)
  finally have lo: "(2::rat) powi (a - b - 1) < x" using x by simp
  have "x = of_int p / of_int q" by (rule x)
  also have "\<dots> < 2 powi a / of_int q"
    using pa(2) qpos by (simp add: divide_strict_right_mono)
  also have "\<dots> \<le> 2 powi a / 2 powi (b - 1)"
    using qb(1) qpos by (intro divide_left_mono) simp_all
  also have "\<dots> = 2 powi (a - b + 1)"
    using power_int_diff [of "2::rat" a "b - 1"] by (simp add: algebra_simps)
  finally have hi: "x < (2::rat) powi (a - b + 1)" .
  have e: "expo x = (if 2 powi (a - b) \<le> x then a - b else a - b - 1)"
    by (simp add: expo_def pq a_def b_def)
  show "2 powi (expo x) \<le> x" using lo e by auto
  show "x < 2 powi (expo x + 1)" using hi e by auto
qed


lemma ulp_pos: "0 < ulp x"
  by (simp add: ulp_def)

lemma fl_positive: "0 < x \<Longrightarrow> fl x = of_int (rhe (x / ulp x)) * ulp x"
  by (simp add: fl_def)

lemma fl_bounds:
  assumes "0 < x"
  shows "2 powi (expo x) \<le> fl x" and "fl x \<le> 2 powi (expo x + 1)"
proof -
  let ?u = "ulp x"
  have u: "0 < ?u" by (rule ulp_pos)
  have e52: "2 powi (expo x) = 2 ^ 52 * ?u"
    using power_int_add [of "2::rat" 52 "expo x - 52"] by (simp add: ulp_def)
  have e53: "2 powi (expo x + 1) = 2 ^ 53 * ?u"
    using power_int_add [of "2::rat" 53 "expo x - 52"] by (simp add: ulp_def add.commute)
  have "of_int (2 ^ 52) \<le> x / ?u"
    using expo_bounds(1) [OF assms] u e52 by (simp add: pos_le_divide_eq)
  then have "rhe (of_int (2 ^ 52)) \<le> rhe (x / ?u)" by (rule rhe_mono)
  then have l: "(2 ^ 52 :: int) \<le> rhe (x / ?u)" by (simp only: rhe_of_int)
  have "x / ?u \<le> of_int (2 ^ 53)"
    using expo_bounds(2) [OF assms] u e53 by (simp add: pos_divide_le_eq)
  then have "rhe (x / ?u) \<le> rhe (of_int (2 ^ 53))" by (rule rhe_mono)
  then have h: "rhe (x / ?u) \<le> (2 ^ 53 :: int)" by (simp only: rhe_of_int)
  have "(of_int (2 ^ 52) :: rat) \<le> of_int (rhe (x / ?u))" using l by (simp only: of_int_le_iff)
  then have "2 ^ 52 * ?u \<le> of_int (rhe (x / ?u)) * ?u"
    using u by (simp add: mult_right_mono)
  then show "2 powi (expo x) \<le> fl x" using e52 fl_positive [OF assms] by simp
  have "(of_int (rhe (x / ?u)) :: rat) \<le> of_int (2 ^ 53)" using h by (simp only: of_int_le_iff)
  then have "of_int (rhe (x / ?u)) * ?u \<le> 2 ^ 53 * ?u"
    using u by (simp add: mult_right_mono)
  then show "fl x \<le> 2 powi (expo x + 1)" using e53 fl_positive [OF assms] by simp
qed

lemma expo_mono:
  assumes "0 < x" and "x \<le> y"
  shows "expo x \<le> expo y"
proof (rule ccontr)
  assume "\<not> expo x \<le> expo y"
  then have "expo y + 1 \<le> expo x" by simp
  then have "(2::rat) powi (expo y + 1) \<le> 2 powi (expo x)"
    by (intro power_int_increasing) simp_all
  moreover have "y < 2 powi (expo y + 1)" using assms by (intro expo_bounds(2)) simp
  moreover have "2 powi (expo x) \<le> x" using assms(1) by (rule expo_bounds(1))
  ultimately show False using assms(2) by simp
qed

lemma fl_nonneg: "0 \<le> x \<Longrightarrow> 0 \<le> fl x"
proof (cases "x = 0")
  case True
  then show ?thesis by (simp add: fl_def)
next
  case False
  assume "0 \<le> x"
  then have p: "0 < x" using False by simp
  have "(0::rat) \<le> 2 powi (expo x)" by simp
  then show ?thesis using fl_bounds(1) [OF p] by (rule order_trans)
qed

lemma fl_mono:
  assumes "0 \<le> x" and "x \<le> y"
  shows "fl x \<le> fl y"
proof (cases "x = 0")
  case True
  then show ?thesis using fl_nonneg [of y] assms by (simp add: fl_def)
next
  case False
  then have x: "0 < x" using assms(1) by simp
  then have y: "0 < y" using assms(2) by simp
  show ?thesis
  proof (cases "expo x = expo y")
    case True
    then have u: "ulp x = ulp y" by (simp add: ulp_def)
    have "x / ulp y \<le> y / ulp y"
      using assms(2) ulp_pos [of y] by (simp add: divide_right_mono)
    then have "rhe (x / ulp y) \<le> rhe (y / ulp y)" by (rule rhe_mono)
    then have "(of_int (rhe (x / ulp y)) :: rat) \<le> of_int (rhe (y / ulp y))"
      by (simp only: of_int_le_iff)
    then have "of_int (rhe (x / ulp y)) * ulp y \<le> of_int (rhe (y / ulp y)) * ulp y"
      using ulp_pos [of y] by (simp add: mult_right_mono)
    then show ?thesis using fl_positive [OF x] fl_positive [OF y] u by simp
  next
    case False
    then have "expo x + 1 \<le> expo y" using expo_mono [OF x assms(2)] by simp
    then have "(2::rat) powi (expo x + 1) \<le> 2 powi (expo y)"
      by (intro power_int_increasing) simp_all
    then show ?thesis using fl_bounds(2) [OF x] fl_bounds(1) [OF y] by simp
  qed
qed

lemma fl_1: "fl 1 = 1"
  by code_simp

lemma fl_10: "fl 10 = 10"
  by code_simp

lemma rhe_error: "\<bar>of_int (rhe r) - r\<bar> \<le> 1 / 2"
proof -
  define d where "d = r - of_int \<lfloor>r\<rfloor>"
  have d: "0 \<le> d" "d < 1" unfolding d_def by linarith+
  have r: "r = of_int \<lfloor>r\<rfloor> + d" by (simp add: d_def)
  consider "d < 1 / 2" | "1 / 2 < d" | "d = 1 / 2" by linarith
  then show ?thesis
  proof cases
    case 1
    then have "rhe r = \<lfloor>r\<rfloor>" by (simp add: rhe_def Let_def d_def)
    then show ?thesis using 1 d r by simp
  next
    case 2
    then have "rhe r = \<lfloor>r\<rfloor> + 1" by (simp add: rhe_def Let_def d_def)
    then have "of_int (rhe r) - r = 1 - d" using r by simp
    then show ?thesis using 2 d by simp
  next
    case 3
    then have "rhe r = \<lfloor>r\<rfloor> \<or> rhe r = \<lfloor>r\<rfloor> + 1" by (simp add: rhe_def Let_def d_def)
    then have "of_int (rhe r) - r = - d \<or> of_int (rhe r) - r = 1 - d" using r by auto
    then show ?thesis using 3 by auto
  qed
qed

lemma rhe_near:
  assumes "\<bar>r - of_int k\<bar> < 1 / 2"
  shows "rhe r = k"
proof -
  have "\<bar>(of_int (rhe r) :: rat) - of_int k\<bar> < 1"
    using rhe_error [of r] assms by linarith
  then have "\<bar>(of_int (rhe r - k) :: rat)\<bar> < 1" by simp
  then have "\<bar>rhe r - k\<bar> < 1" by (metis of_int_abs of_int_less_1_iff)
  then show ?thesis by simp
qed

lemma fl_error:
  assumes "0 < z"
  shows "\<bar>fl z - z\<bar> \<le> ulp z / 2"
proof -
  have u: "0 < ulp z" by (rule ulp_pos)
  have "fl z - z = (of_int (rhe (z / ulp z)) - z / ulp z) * ulp z"
    using fl_positive [OF assms] u by (simp add: algebra_simps)
  then have "\<bar>fl z - z\<bar> = \<bar>of_int (rhe (z / ulp z)) - z / ulp z\<bar> * ulp z"
    using u by (simp add: abs_mult)
  also have "\<dots> \<le> 1 / 2 * ulp z"
    using rhe_error [of "z / ulp z"] u by (intro mult_right_mono) simp_all
  finally show ?thesis by simp
qed

lemma ulp_small:
  assumes "0 < z" and "z \<le> 10"
  shows "ulp z \<le> 1 / 2 ^ 49"
proof -
  have "\<not> 4 \<le> expo z"
  proof
    assume "4 \<le> expo z"
    then have "(2::rat) powi 4 \<le> 2 powi (expo z)" by (intro power_int_increasing) simp_all
    then show False using expo_bounds(1) [OF assms(1)] assms(2) by simp
  qed
  then have "expo z - 52 \<le> - 49" by simp
  then have "(2::rat) powi (expo z - 52) \<le> 2 powi (- 49)"
    by (intro power_int_increasing) simp_all
  moreover have "(2::rat) powi (- 49) = 1 / 2 ^ 49"
    using power_int_minus_divide [of "2::rat" 49] by simp
  ultimately show ?thesis by (simp only: ulp_def)
qed

lemma tenth_fixed:
  assumes "10 \<le> k" and "k \<le> 100"
  shows "rhe (fl (of_int k / 10) * 10) = k"
proof -
  let ?z = "of_int k / 10 :: rat"
  have z: "0 < ?z" "?z \<le> 10" using assms by simp_all
  have "\<bar>fl ?z - ?z\<bar> \<le> ulp ?z / 2" using z(1) by (rule fl_error)
  also have "\<dots> \<le> (1 / 2 ^ 49) / 2" using ulp_small [OF z] by simp
  finally have "\<bar>fl ?z - ?z\<bar> < 1 / 20" by simp
  then have "\<bar>fl ?z * 10 - of_int k\<bar> < 1 / 2" by (simp add: abs_if split: if_splits)
  then show ?thesis by (rule rhe_near)
qed

lemma round1_range:
  assumes "1 \<le> m" and "m \<le> 10"
  shows "1 \<le> round1 m" and "round1 m \<le> 10" and "round1 (round1 m) = round1 m"
proof -
  let ?k = "rhe (m * 10)"
  have "rhe (of_int 10) \<le> ?k" using assms(1) by (intro rhe_mono) simp
  then have k1: "10 \<le> ?k" by (simp only: rhe_of_int)
  have "?k \<le> rhe (of_int 100)" using assms(2) by (intro rhe_mono) simp
  then have k2: "?k \<le> 100" by (simp only: rhe_of_int)
  have r: "round1 m = fl (of_int ?k / 10)" by (simp add: round1_def)
  have "fl 1 \<le> fl (of_int ?k / 10)" using k1 by (intro fl_mono) simp_all
  then show "1 \<le> round1 m" using r fl_1 by simp
  have "fl (of_int ?k / 10) \<le> fl 10" using k1 k2 by (intro fl_mono) simp_all
  then show "round1 m \<le> 10" using r fl_10 by simp
  have "round1 (round1 m) = fl (of_int (rhe (fl (of_int ?k / 10) * 10)) / 10)"
    by (simp add: round1_def)
  then show "round1 (round1 m) = round1 m" using tenth_fixed [OF k1 k2] r by simp
qed

lemma fadd_ge_1: "1 \<le> a \<Longrightarrow> 0 \<le> b \<Longrightarrow> 1 \<le> fadd a b"
  using fl_mono [of 1 "a + b"] fl_1 by (simp add: fadd_def)

lemma fadd_nonneg: "0 \<le> a \<Longrightarrow> 0 \<le> b \<Longrightarrow> 0 \<le> fadd a b"
  using fl_nonneg [of "a + b"] by (simp add: fadd_def)

lemma truediv_nonneg: "0 \<le> a \<Longrightarrow> 0 < b \<Longrightarrow> 0 \<le> truediv a b"
  using fl_nonneg [of "of_int a / of_int b"] by (simp add: truediv_def)

lemma foldl_fadd_nonneg: "0 \<le> acc \<Longrightarrow> list_all (\<lambda>x. 0 \<le> x) xs \<Longrightarrow> 0 \<le> foldl fadd acc xs"
  by (induction xs arbitrary: acc) (simp_all add: fadd_nonneg)

lemma py_sum_nonneg: "0 \<le> py_sum (map (\<lambda>tech. fl (3 / 10)) xs)"
  unfolding py_sum_def
  by (rule foldl_fadd_nonneg) (simp_all add: list_all_iff fl_nonneg)

text \<open>
  Claim C5. For every tree, technology list and metadata the score lies between 1.0
  and 10.0, and rounding it to one decimal place returns it unchanged.
\<close>

theorem complexity_score_range:
  "1 \<le> calculate_complexity_score t technologies meta
   \<and> calculate_complexity_score t technologies meta \<le> 10
   \<and> round1 (calculate_complexity_score t technologies meta)
       = calculate_complexity_score t technologies meta"
proof -
  define s1 where "s1 = fadd 1 (min 3 (truediv (int (count_files t)) 20))"
  define s2 where "s2 = fadd s1 (min 2 (truediv (int (length technologies)) 5))"
  define s3 where "s3 = (if get_or (repo_size meta) 0 > 1000 then fadd s2 1 else s2)"
  define s4 where "s4 = (if get_or (repo_size meta) 0 > 10000 then fadd s3 1 else s3)"
  define s5 where "s5 = (if get_or (stargazers_count meta) 0 > 10 then fadd s4 (1 / 2) else s4)"
  define s6 where "s6 = (if get_or (forks_count meta) 0 > 5 then fadd s5 (1 / 2) else s5)"
  define s7 where "s7 = fadd s6 (py_sum (map (\<lambda>tech. fl (3 / 10))
                               (filter (\<lambda>tech. tech \<in> set advanced_tech) technologies)))"
  have c: "calculate_complexity_score t technologies meta = round1 (min 10 s7)"
    by (simp add: calculate_complexity_score_def Let_def s1_def s2_def s3_def s4_def s5_def
        s6_def s7_def)
  have "1 \<le> s1" unfolding s1_def by (intro fadd_ge_1) (simp_all add: truediv_nonneg)
  then have "1 \<le> s2" unfolding s2_def by (intro fadd_ge_1) (simp_all add: truediv_nonneg)
  then have "1 \<le> s3" unfolding s3_def by (simp add: fadd_ge_1)
  then have "1 \<le> s4" unfolding s4_def by (simp add: fadd_ge_1)
  then have "1 \<le> s5" unfolding s5_def by (simp add: fadd_ge_1)
  then have "1 \<le> s6" unfolding s6_def by (simp add: fadd_ge_1)
  then have "1 \<le> s7" unfolding s7_def by (intro fadd_ge_1 py_sum_nonneg)
  then have m: "1 \<le> min 10 s7" "min 10 s7 \<le> 10" by simp_all
  show ?thesis unfolding c using round1_range [OF m] by simp
qed

end
